theory Spec2Isabelle
  imports Main
begin

section \<open>Python values used by the two request handlers\<close>

text \<open>
  The repository holds two variants of the same Flask application: \<^verbatim>\<open>src/app.py\<close>
  (the page-serving variant, names ending in \<open>_app\<close> below) and
  \<^verbatim>\<open>src/api/index.py\<close> (the JSON-only variant, names ending in \<open>_api\<close>).
  A Python \<^verbatim>\<open>str\<close> is a list of Unicode code points, a file's content a list of
  bytes. A library call that may raise returns \<open>Inl\<close> of the exception's message
  (\<^verbatim>\<open>str(e)\<close>) or \<open>Inr\<close> of its value.
\<close>

type_synonym pystr = "nat list"
type_synonym blob = "nat list"
type_synonym image = "nat list"
type_synonym 'a raises = "pystr + 'a"

definition ascii :: "string \<Rightarrow> pystr" where
  "ascii s = map of_char s"

text \<open>\<^verbatim>\<open>str.isspace\<close> of one code point, which is what \<^verbatim>\<open>str.strip()\<close> removes.\<close>

definition isspace :: "nat \<Rightarrow> bool" where
  "isspace c \<longleftrightarrow>
     (0x9 \<le> c \<and> c \<le> 0xD) \<or> (0x1C \<le> c \<and> c \<le> 0x20) \<or> c = 0x85 \<or> c = 0xA0 \<or>
     c = 0x1680 \<or> (0x2000 \<le> c \<and> c \<le> 0x200A) \<or> c = 0x2028 \<or> c = 0x2029 \<or>
     c = 0x202F \<or> c = 0x205F \<or> c = 0x3000"

definition strip :: "pystr \<Rightarrow> pystr" where
  "strip s = rev (dropWhile isspace (rev (dropWhile isspace s)))"

definition startswith :: "pystr \<Rightarrow> pystr \<Rightarrow> bool" where
  "startswith s p \<longleftrightarrow> take (length p) s = p"

text \<open>The sentinel prefix of \<^verbatim>\<open>app.py\<close>: U+26A0 (warning sign), U+FE0F.\<close>

definition warn :: pystr where
  "warn = [0x26A0, 0xFE0F]"

definition nl :: pystr where
  "nl = [0xA]"

text \<open>\<^verbatim>\<open>sep.join(xs)\<close>\<close>

fun join :: "pystr \<Rightarrow> pystr list \<Rightarrow> pystr" where
  "join sep [] = []"
| "join sep [x] = x"
| "join sep (x # y # ys) = x @ sep @ join sep (y # ys)"

text \<open>\<^verbatim>\<open>str(n)\<close> for a non-negative integer.\<close>

fun str_nat :: "nat \<Rightarrow> pystr" where
  "str_nat n = (if n < 10 then [48 + n] else str_nat (n div 10) @ [48 + n mod 10])"

declare str_nat.simps [simp del]

text \<open>\<^verbatim>\<open>x or d\<close> for a form field (\<^verbatim>\<open>None\<close> and \<^verbatim>\<open>""\<close> are falsy).\<close>

definition or_default :: "pystr option \<Rightarrow> pystr \<Rightarrow> pystr" where
  "or_default x d = (case x of None \<Rightarrow> d | Some s \<Rightarrow> if s = [] then d else s)"

text \<open>\<^verbatim>\<open>request.form.get(key, d)\<close>: the default only when the key is absent.\<close>

definition get_default :: "pystr option \<Rightarrow> pystr \<Rightarrow> pystr" where
  "get_default x d = (case x of None \<Rightarrow> d | Some s \<Rightarrow> s)"

text \<open>\<^verbatim>\<open>if x:\<close> on a form field: the value when it is truthy.\<close>

definition truthy_str :: "pystr option \<Rightarrow> pystr option" where
  "truthy_str x = (case x of None \<Rightarrow> None | Some s \<Rightarrow> if s = [] then None else Some s)"

text \<open>\<^verbatim>\<open>os.path.join(a, b)\<close> on POSIX, for \<open>a\<close> that does not end in a slash.\<close>

definition path_join :: "pystr \<Rightarrow> pystr \<Rightarrow> pystr" where
  "path_join a b = (if startswith b (ascii ''/'') then b else a @ ascii ''/'' @ b)"

section \<open>Requests, the outside world, and the process state\<close>

text \<open>
  An uploaded file (werkzeug's \<^verbatim>\<open>FileStorage\<close>): its declared name and its bytes.
  Its truth value is that of its file name.
\<close>

record file_storage =
  filename :: pystr
  content :: blob

definition truthy_file :: "file_storage option \<Rightarrow> file_storage option" where
  "truthy_file x =
     (case x of None \<Rightarrow> None | Some f \<Rightarrow> if filename f = [] then None else Some f)"

text \<open>
  The form of one POST to \<^verbatim>\<open>/process\<close>. \<^verbatim>\<open>app.py\<close> reads the keys
  \<^verbatim>\<open>text_input\<close> and \<^verbatim>\<open>url_input\<close>, \<^verbatim>\<open>api/index.py\<close> the keys
  \<^verbatim>\<open>text\<close> and \<^verbatim>\<open>url\<close>; both read \<^verbatim>\<open>file\<close>.
\<close>

record request =
  text_input :: "pystr option"
  url_input :: "pystr option"
  uploaded_file :: "file_storage option"
  input_lang :: "pystr option"
  output_lang :: "pystr option"
  summary_length :: "pystr option"
  summary_format :: "pystr option"

text \<open>
  What \<^verbatim>\<open>FileStorage.save(path)\<close> does: it writes the file, or it raises, and then a
  file may or may not have been left at the path.
\<close>

datatype save_result = Saved | SaveFailed pystr bool

text \<open>
  The libraries the handlers call. Each field stands for the call named in its comment;
  the handlers are verified for every behaviour of these calls.
\<close>

record env =
  splitext_lower :: "pystr \<Rightarrow> pystr"
    \<comment> \<open>\<^verbatim>\<open>os.path.splitext(name)[1].lower()\<close>\<close>
  extract_text :: "blob \<Rightarrow> pystr raises"
    \<comment> \<open>pdfminer's text-layer extraction of the staged file\<close>
  convert_from_path :: "blob \<Rightarrow> nat \<Rightarrow> nat \<Rightarrow> image list raises"
    \<comment> \<open>pdf2image: pages \<^verbatim>\<open>first_page\<close> to \<^verbatim>\<open>last_page\<close> rendered\<close>
  image_to_string :: "image \<Rightarrow> pystr option \<Rightarrow> pystr \<Rightarrow> pystr raises"
    \<comment> \<open>pytesseract, with \<^verbatim>\<open>lang\<close> and \<^verbatim>\<open>config\<close>\<close>
  docx_paragraphs :: "blob \<Rightarrow> pystr list raises"
    \<comment> \<open>\<^verbatim>\<open>[p.text for p in docx.Document(path).paragraphs]\<close>\<close>
  image_open :: "blob \<Rightarrow> image raises"
    \<comment> \<open>\<^verbatim>\<open>Image.open(path)\<close>\<close>
  thumbnail :: "image \<Rightarrow> nat \<times> nat \<Rightarrow> image raises"
    \<comment> \<open>\<^verbatim>\<open>img.thumbnail(size)\<close>, the image after the call\<close>
  read_utf8 :: "blob \<Rightarrow> pystr raises"
    \<comment> \<open>\<^verbatim>\<open>open(path, "r", encoding="utf-8").read()\<close>\<close>
  requests_get :: "pystr \<Rightarrow> (pystr \<times> pystr) list \<Rightarrow> nat \<Rightarrow> pystr raises"
    \<comment> \<open>\<^verbatim>\<open>requests.get(url, headers, timeout)\<close>, \<^verbatim>\<open>raise_for_status()\<close>, then \<^verbatim>\<open>.text\<close>\<close>
  soup_get_text :: "pystr \<Rightarrow> pystr \<Rightarrow> bool \<Rightarrow> pystr raises"
    \<comment> \<open>\<^verbatim>\<open>BeautifulSoup(html, "html.parser").get_text(separator, strip)\<close>\<close>
  generate_content :: "pystr \<Rightarrow> pystr \<Rightarrow> pystr raises"
    \<comment> \<open>\<^verbatim>\<open>app.py\<close>: \<^verbatim>\<open>client.models.generate_content(model, contents).text\<close>\<close>
  generate_text :: "pystr \<Rightarrow> pystr \<Rightarrow> nat \<Rightarrow> pystr raises"
    \<comment> \<open>\<^verbatim>\<open>api/index.py\<close>: \<^verbatim>\<open>client.generate_text(model, prompt, max_output_tokens).text\<close>\<close>
  now_strftime :: pystr
    \<comment> \<open>\<^verbatim>\<open>datetime.now().strftime("%Y-%m-%d %H:%M:%S")\<close>\<close>
  now_isoformat :: pystr
    \<comment> \<open>\<^verbatim>\<open>datetime.now().isoformat()\<close>\<close>
  named_temporary_file :: "pystr \<Rightarrow> pystr raises"
    \<comment> \<open>the name of \<^verbatim>\<open>tempfile.NamedTemporaryFile(delete=False, suffix=suffix)\<close>\<close>
  makedirs :: "pystr \<Rightarrow> unit raises"
    \<comment> \<open>\<^verbatim>\<open>os.makedirs(name, exist_ok=True)\<close>\<close>
  save :: "pystr \<Rightarrow> blob \<Rightarrow> save_result"
    \<comment> \<open>\<^verbatim>\<open>uploaded_file.save(path)\<close>\<close>

text \<open>The calls a handler makes to the outside, in order.\<close>

datatype event =
    EvSave pystr
  | EvPdfText pystr
  | EvPdfRender pystr nat nat
  | EvOcr image "pystr option" pystr
  | EvDocx pystr
  | EvImageOpen pystr
  | EvThumbnail image
  | EvReadText pystr
  | EvRemove pystr
  | EvHttpGet pystr
  | EvSoup pystr
  | EvSummarize pystr

text \<open>
  The process state: the staged files on disk, the module-level list
  \<^verbatim>\<open>summaries_history\<close>, and the log of outside calls made so far.
  Requests run one after the other. A staged file holds the bytes of the upload, so an
  extractor is given those bytes. The log records the calls on the staged file, on the URL
  and to the summarization service; logging by the handlers is left out.
\<close>

record 'h state =
  files :: "pystr set"
  summaries_history :: "'h list"
  calls :: "event list"

text \<open>The history entries: \<^verbatim>\<open>app.py\<close> lines 144-150 and \<^verbatim>\<open>api/index.py\<close> lines 133-136.\<close>

record app_record =
  timestamp :: pystr
  summary :: pystr
  language :: pystr
  length_h :: pystr
  format :: pystr

record api_record =
  time :: pystr
  summary_h :: pystr

text \<open>
  What the caller gets: the JSON body (summary, error message, history), or an uncaught
  exception, which Flask turns into a server error.
\<close>

datatype 'h result =
    Response (resp_summary: pystr) (resp_error: pystr) (resp_history: "'h list")
  | Fault pystr

definition log_calls :: "event list \<Rightarrow> 'h state \<Rightarrow> 'h state" where
  "log_calls evs st = st\<lparr>calls := calls st @ evs\<rparr>"

text \<open>The state after a successful \<^verbatim>\<open>save(path)\<close>: the file exists.\<close>

definition save_file :: "pystr \<Rightarrow> 'h state \<Rightarrow> 'h state" where
  "save_file path st = st\<lparr>files := insert path (files st), calls := calls st @ [EvSave path]\<rparr>"

text \<open>
  \<^verbatim>\<open>uploaded_file.save(path)\<close>: \<open>None\<close> and the state with the file, or the exception's
  message and the state with whatever the failed call left.
\<close>

definition save_upload :: "env \<Rightarrow> pystr \<Rightarrow> blob \<Rightarrow> 'h state \<Rightarrow> pystr option \<times> 'h state" where
  "save_upload env path b st =
     (case save env path b of
        Saved \<Rightarrow> (None, save_file path st)
      | SaveFailed e left \<Rightarrow>
          (Some e,
           st\<lparr>files := (if left then insert path (files st) else files st),
              calls := calls st @ [EvSave path]\<rparr>))"

text \<open>\<^verbatim>\<open>os.remove(path)\<close>: raises when there is no such file.\<close>

definition os_remove :: "pystr \<Rightarrow> 'h state \<Rightarrow> 'h state raises" where
  "os_remove path st =
     (if path \<in> files st
      then Inr (st\<lparr>files := files st - {path}, calls := calls st @ [EvRemove path]\<rparr>)
      else Inl (ascii ''No such file or directory''))"

section \<open>The history buffer\<close>

text \<open>\<^verbatim>\<open>app.py\<close> lines 144-152: append, then \<^verbatim>\<open>pop(0)\<close> once if longer than 5.\<close>

definition history_append_app :: "'h list \<Rightarrow> 'h \<Rightarrow> 'h list" where
  "history_append_app h r = (let h' = h @ [r] in if length h' > 5 then tl h' else h')"

text \<open>\<^verbatim>\<open>api/index.py\<close> lines 133-139: append, then keep the slice \<^verbatim>\<open>[-5:]\<close>.\<close>

definition history_append_api :: "'h list \<Rightarrow> 'h \<Rightarrow> 'h list" where
  "history_append_api h r = (let h' = h @ [r] in drop (length h' - 5) h')"

section \<open>The format extractors of \<^verbatim>\<open>app.py\<close>\<close>

text \<open>
  An extractor returns a string (the text, or a message with the sentinel prefix) and the
  outside calls it made. Every exception raised inside is caught and turned into a
  message.
\<close>

text \<open>
  Lines 48-50: the loop \<^verbatim>\<open>ocr_text += image_to_string(img, lang, '--psm 6') + "\n"\<close>;
  \<open>Inl\<close> when a call raises.
\<close>

fun ocr_pages_app :: "env \<Rightarrow> pystr \<Rightarrow> image list \<Rightarrow> pystr \<Rightarrow> pystr raises \<times> event list" where
  "ocr_pages_app env ocr_lang [] ocr_text = (Inr ocr_text, [])"
| "ocr_pages_app env ocr_lang (img # imgs) ocr_text =
     (case image_to_string env img (Some ocr_lang) (ascii ''--psm 6'') of
        Inl e \<Rightarrow> (Inl e, [EvOcr img (Some ocr_lang) (ascii ''--psm 6'')])
      | Inr t \<Rightarrow>
          (case ocr_pages_app env ocr_lang imgs (ocr_text @ t @ nl) of
             (r, evs) \<Rightarrow> (r, EvOcr img (Some ocr_lang) (ascii ''--psm 6'') # evs)))"

definition pdf_error_app :: "pystr \<Rightarrow> pystr" where
  "pdf_error_app e = warn @ ascii '' Error extracting PDF text: '' @ e"

definition no_readable_text :: pystr where
  "no_readable_text = warn @ ascii '' No readable text found.''"

text \<open>Lines 41-54.\<close>

definition extract_pdf_text_app :: "env \<Rightarrow> pystr \<Rightarrow> blob \<Rightarrow> pystr \<Rightarrow> pystr \<times> event list" where
  "extract_pdf_text_app env file_path b ocr_lang =
     (case extract_text env b of
        Inl e \<Rightarrow> (pdf_error_app e, [EvPdfText file_path])
      | Inr text \<Rightarrow>
          if strip text \<noteq> [] then (text, [EvPdfText file_path])
          else
            (case convert_from_path env b 1 1 of
               Inl e \<Rightarrow> (pdf_error_app e, [EvPdfText file_path, EvPdfRender file_path 1 1])
             | Inr images \<Rightarrow>
                 (case ocr_pages_app env ocr_lang images [] of
                    (Inl e, evs) \<Rightarrow>
                      (pdf_error_app e, [EvPdfText file_path, EvPdfRender file_path 1 1] @ evs)
                  | (Inr ocr_text, evs) \<Rightarrow>
                      (if strip ocr_text \<noteq> [] then ocr_text else no_readable_text,
                       [EvPdfText file_path, EvPdfRender file_path 1 1] @ evs))))"

text \<open>Lines 56-62.\<close>

definition extract_docx_text_app :: "env \<Rightarrow> pystr \<Rightarrow> blob \<Rightarrow> pystr \<times> event list" where
  "extract_docx_text_app env file_path b =
     (case docx_paragraphs env b of
        Inl e \<Rightarrow> (warn @ ascii '' Error extracting DOCX: '' @ e, [EvDocx file_path])
      | Inr paras \<Rightarrow> (join nl paras, [EvDocx file_path]))"

definition ocr_error_app :: "pystr \<Rightarrow> pystr" where
  "ocr_error_app e = warn @ ascii '' OCR error: '' @ e"

definition no_ocr_text :: pystr where
  "no_ocr_text = warn @ ascii '' OCR did not detect any text.''"

text \<open>Lines 64-72.\<close>

definition extract_image_text_app :: "env \<Rightarrow> pystr \<Rightarrow> blob \<Rightarrow> pystr \<Rightarrow> pystr \<times> event list" where
  "extract_image_text_app env file_path b ocr_lang =
     (case image_open env b of
        Inl e \<Rightarrow> (ocr_error_app e, [EvImageOpen file_path])
      | Inr img0 \<Rightarrow>
          (case thumbnail env img0 (1000, 1000) of
             Inl e \<Rightarrow> (ocr_error_app e, [EvImageOpen file_path, EvThumbnail img0])
           | Inr img \<Rightarrow>
               (case image_to_string env img (Some ocr_lang) (ascii ''--psm 6'') of
                  Inl e \<Rightarrow>
                    (ocr_error_app e,
                     [EvImageOpen file_path, EvThumbnail img0,
                      EvOcr img (Some ocr_lang) (ascii ''--psm 6'')])
                | Inr text \<Rightarrow>
                    (if strip text \<noteq> [] then text else no_ocr_text,
                     [EvImageOpen file_path, EvThumbnail img0,
                      EvOcr img (Some ocr_lang) (ascii ''--psm 6'')]))))"

section \<open>The format extractors of \<^verbatim>\<open>api/index.py\<close>\<close>

text \<open>Line 40: \<^verbatim>\<open>"".join(pytesseract.image_to_string(img) for img in images)\<close>.\<close>

fun ocr_pages_api :: "env \<Rightarrow> image list \<Rightarrow> pystr raises \<times> event list" where
  "ocr_pages_api env [] = (Inr [], [])"
| "ocr_pages_api env (img # imgs) =
     (case image_to_string env img None [] of
        Inl e \<Rightarrow> (Inl e, [EvOcr img None []])
      | Inr t \<Rightarrow>
          (case ocr_pages_api env imgs of
             (Inl e, evs) \<Rightarrow> (Inl e, EvOcr img None [] # evs)
           | (Inr rest, evs) \<Rightarrow> (Inr (t @ rest), EvOcr img None [] # evs)))"

definition pdf_error_api :: "pystr \<Rightarrow> pystr" where
  "pdf_error_api e = ascii ''PDF error: '' @ e"

text \<open>Lines 33-44.\<close>

definition extract_pdf_text_api :: "env \<Rightarrow> pystr \<Rightarrow> blob \<Rightarrow> pystr \<times> event list" where
  "extract_pdf_text_api env path b =
     (case extract_text env b of
        Inl e \<Rightarrow> (pdf_error_api e, [EvPdfText path])
      | Inr text \<Rightarrow>
          if strip text \<noteq> [] then (text, [EvPdfText path])
          else
            (case convert_from_path env b 1 1 of
               Inl e \<Rightarrow> (pdf_error_api e, [EvPdfText path, EvPdfRender path 1 1])
             | Inr images \<Rightarrow>
                 (case ocr_pages_api env images of
                    (Inl e, evs) \<Rightarrow> (pdf_error_api e, [EvPdfText path, EvPdfRender path 1 1] @ evs)
                  | (Inr ocr_text, evs) \<Rightarrow>
                      (ocr_text, [EvPdfText path, EvPdfRender path 1 1] @ evs))))"

text \<open>Lines 46-52.\<close>

definition extract_docx_text_api :: "env \<Rightarrow> pystr \<Rightarrow> blob \<Rightarrow> pystr \<times> event list" where
  "extract_docx_text_api env path b =
     (case docx_paragraphs env b of
        Inl e \<Rightarrow> (ascii ''DOCX error: '' @ e, [EvDocx path])
      | Inr paras \<Rightarrow> (join nl paras, [EvDocx path]))"

text \<open>Lines 54-60.\<close>

definition extract_image_text_api :: "env \<Rightarrow> pystr \<Rightarrow> blob \<Rightarrow> pystr \<times> event list" where
  "extract_image_text_api env path b =
     (case image_open env b of
        Inl e \<Rightarrow> (ascii ''OCR error: '' @ e, [EvImageOpen path])
      | Inr img \<Rightarrow>
          (case image_to_string env img None [] of
             Inl e \<Rightarrow> (ascii ''OCR error: '' @ e, [EvImageOpen path, EvOcr img None []])
           | Inr text \<Rightarrow> (text, [EvImageOpen path, EvOcr img None []])))"

section \<open>The request handler of \<^verbatim>\<open>app.py\<close>\<close>

text \<open>
  The dispatch part of a handler (choosing and running one input channel) returns the pair
  of the handler's variables \<^verbatim>\<open>extracted_text\<close> and the error message, or \<open>Inl\<close>
  when an exception leaves the handler.
\<close>

definition valid_extensions :: "pystr set" where
  "valid_extensions =
     {ascii ''.pdf'', ascii ''.docx'', ascii ''.txt'', ascii ''.png'', ascii ''.jpg'',
      ascii ''.jpeg''}"

definition image_extensions :: "pystr set" where
  "image_extensions = {ascii ''.png'', ascii ''.jpg'', ascii ''.jpeg''}"

text \<open>
  Lines 114-122: the extractor chosen by the extension, run on the staged file. Only the
  read of a \<^verbatim>\<open>.txt\<close> file is outside any \<^verbatim>\<open>try\<close>.
\<close>

definition extract_by_ext_app ::
  "env \<Rightarrow> pystr \<Rightarrow> pystr \<Rightarrow> blob \<Rightarrow> pystr \<Rightarrow> pystr raises \<times> event list" where
  "extract_by_ext_app env file_ext file_path b ocr_lang =
     (if file_ext = ascii ''.pdf'' then
        (case extract_pdf_text_app env file_path b ocr_lang of (t, evs) \<Rightarrow> (Inr t, evs))
      else if file_ext = ascii ''.docx'' then
        (case extract_docx_text_app env file_path b of (t, evs) \<Rightarrow> (Inr t, evs))
      else if file_ext = ascii ''.txt'' then (read_utf8 env b, [EvReadText file_path])
      else if file_ext \<in> image_extensions then
        (case extract_image_text_app env file_path b ocr_lang of (t, evs) \<Rightarrow> (Inr t, evs))
      else (Inr [], []))"

text \<open>
  Lines 105-123, the branch \<^verbatim>\<open>if uploaded_file:\<close>. An exception of
  \<^verbatim>\<open>os.makedirs\<close>, of \<^verbatim>\<open>save\<close> or of the \<^verbatim>\<open>.txt\<close> read leaves the handler
  before \<^verbatim>\<open>os.remove\<close>.
\<close>

definition file_branch_app ::
  "env \<Rightarrow> file_storage \<Rightarrow> pystr \<Rightarrow> 'h state \<Rightarrow> (pystr \<times> pystr) raises \<times> 'h state" where
  "file_branch_app env f ocr_lang st =
     (let file_ext = splitext_lower env (filename f) in
      if file_ext \<notin> valid_extensions
      then (Inr ([], warn @ ascii '' Unsupported file type: '' @ file_ext), st)
      else
        (let file_path = path_join (ascii ''Uploads'') (filename f)
         in case makedirs env (ascii ''Uploads'') of
              Inl e \<Rightarrow> (Inl e, st)
            | Inr u \<Rightarrow>
                (case save_upload env file_path (content f) st of
                   (Some e, st1) \<Rightarrow> (Inl e, st1)
                 | (None, st1) \<Rightarrow>
                     (case extract_by_ext_app env file_ext file_path (content f) ocr_lang of
                        (Inl e, evs) \<Rightarrow> (Inl e, log_calls evs st1)
                      | (Inr extracted_text, evs) \<Rightarrow>
                          (case os_remove file_path (log_calls evs st1) of
                             Inl e \<Rightarrow> (Inl e, log_calls evs st1)
                           | Inr st2 \<Rightarrow> (Inr (extracted_text, []), st2))))))"

definition url_error_app :: "pystr \<Rightarrow> pystr" where
  "url_error_app e = warn @ ascii '' Error fetching URL: '' @ e"

text \<open>Lines 124-132, the branch \<^verbatim>\<open>elif url_input:\<close>.\<close>

definition url_branch_app ::
  "env \<Rightarrow> pystr \<Rightarrow> 'h state \<Rightarrow> (pystr \<times> pystr) raises \<times> 'h state" where
  "url_branch_app env url st =
     (case requests_get env url
             [(ascii ''User-Agent'', ascii ''GlobalTextSummarizerBot/1.0'')] 5 of
        Inl e \<Rightarrow> (Inr ([], url_error_app e), log_calls [EvHttpGet url] st)
      | Inr html \<Rightarrow>
          (case soup_get_text env html nl True of
             Inl e \<Rightarrow> (Inr ([], url_error_app e), log_calls [EvHttpGet url, EvSoup html] st)
           | Inr t \<Rightarrow> (Inr (t, []), log_calls [EvHttpGet url, EvSoup html] st)))"

text \<open>Lines 104-134: file, else URL, else text; there is no final \<^verbatim>\<open>else\<close>.\<close>

definition dispatch_app ::
  "env \<Rightarrow> request \<Rightarrow> pystr \<Rightarrow> 'h state \<Rightarrow> (pystr \<times> pystr) raises \<times> 'h state" where
  "dispatch_app env req ocr_lang st =
     (case truthy_file (uploaded_file req) of
        Some f \<Rightarrow> file_branch_app env f ocr_lang st
      | None \<Rightarrow>
          (case truthy_str (url_input req) of
             Some url \<Rightarrow> url_branch_app env url st
           | None \<Rightarrow>
               (case truthy_str (text_input req) of
                  Some t \<Rightarrow> (Inr (t, []), st)
                | None \<Rightarrow> (Inr ([], []), st))))"

definition length_map :: "(pystr \<times> nat) list" where
  "length_map = [(ascii ''Short'', 100), (ascii ''Medium'', 200), (ascii ''Long'', 300)]"

definition word_limit_of :: "pystr \<Rightarrow> nat" where
  "word_limit_of sum_length =
     (case map_of length_map sum_length of None \<Rightarrow> 200 | Some n \<Rightarrow> n)"

definition ocr_lang_map :: "(pystr \<times> pystr) list" where
  "ocr_lang_map =
     [(ascii ''English'', ascii ''eng''), (ascii ''Hindi'', ascii ''hin''),
      (ascii ''French'', ascii ''fra''), (ascii ''Spanish'', ascii ''spa''),
      (ascii ''German'', ascii ''deu''), (ascii ''Chinese'', ascii ''chi_sim''),
      (ascii ''Japanese'', ascii ''jpn'')]"

definition ocr_lang_of :: "pystr \<Rightarrow> pystr" where
  "ocr_lang_of in_lang =
     (case map_of ocr_lang_map in_lang of None \<Rightarrow> ascii ''eng'' | Some c \<Rightarrow> c)"

definition format_prompt_of :: "pystr \<Rightarrow> pystr" where
  "format_prompt_of sum_format =
     (if sum_format = ascii ''Paragraph'' then ascii ''as a paragraph''
      else ascii ''in bullet points'')"

text \<open>Line 141, the f-string passed as \<^verbatim>\<open>contents\<close>.\<close>

definition prompt_app :: "pystr \<Rightarrow> pystr \<Rightarrow> nat \<Rightarrow> pystr \<Rightarrow> pystr" where
  "prompt_app out_lang format_prompt word_limit extracted_text =
     ascii ''Summarize the following text in '' @ out_lang @ ascii '' '' @ format_prompt @
     ascii ''. Keep it concise (~'' @ str_nat word_limit @ ascii '' words max):'' @ nl @ nl @
     extracted_text"

text \<open>Lines 136-160: the guard on \<^verbatim>\<open>extracted_text\<close>, the summarization, the response.\<close>

definition summarize_app ::
  "env \<Rightarrow> pystr \<Rightarrow> pystr \<Rightarrow> pystr \<Rightarrow> pystr \<Rightarrow> nat \<Rightarrow> pystr \<Rightarrow> pystr \<Rightarrow> pystr \<Rightarrow>
   app_record state \<Rightarrow> app_record result \<times> app_record state" where
  "summarize_app env ts out_lang sum_length sum_format word_limit format_prompt
       extracted_text error_msg st =
     (if strip extracted_text \<noteq> [] \<and> \<not> startswith extracted_text warn then
        (let prompt = prompt_app out_lang format_prompt word_limit extracted_text;
             st1 = log_calls [EvSummarize prompt] st
         in case generate_content env (ascii ''gemini-2.5-flash'') prompt of
              Inl e \<Rightarrow>
                (Response [] (warn @ ascii '' Summarization failed: '' @ e)
                   (summaries_history st1), st1)
            | Inr s \<Rightarrow>
                (let h = history_append_app (summaries_history st1)
                           \<lparr>timestamp = ts, summary = s, language = out_lang,
                            length_h = sum_length, format = sum_format\<rparr>
                 in (Response s error_msg h, st1\<lparr>summaries_history := h\<rparr>)))
      else (Response [] error_msg (summaries_history st), st))"

text \<open>Lines 80-160.\<close>

definition process_app ::
  "env \<Rightarrow> request \<Rightarrow> app_record state \<Rightarrow> app_record result \<times> app_record state" where
  "process_app env req st =
     (let ts = now_strftime env;
          in_lang = or_default (input_lang req) (ascii ''English'');
          out_lang = or_default (output_lang req) (ascii ''English'');
          sum_length = or_default (summary_length req) (ascii ''Medium'');
          sum_format = or_default (summary_format req) (ascii ''Paragraph'');
          word_limit = word_limit_of sum_length;
          format_prompt = format_prompt_of sum_format;
          ocr_lang = ocr_lang_of in_lang
      in case dispatch_app env req ocr_lang st of
           (Inl e, st1) \<Rightarrow> (Fault e, st1)
         | (Inr (extracted_text, error_msg), st1) \<Rightarrow>
             summarize_app env ts out_lang sum_length sum_format word_limit format_prompt
               extracted_text error_msg st1)"

text \<open>Lines 162-165.\<close>

definition clear_history :: "'h state \<Rightarrow> 'h state" where
  "clear_history st = st\<lparr>summaries_history := []\<rparr>"

section \<open>The request handler of \<^verbatim>\<open>api/index.py\<close>\<close>

text \<open>
  Lines 90-101, the body of the \<^verbatim>\<open>try\<close>: the extracted text and the error message, or
  the exception of the \<^verbatim>\<open>.txt\<close> read.
\<close>

definition extract_by_suffix_api ::
  "env \<Rightarrow> pystr \<Rightarrow> pystr \<Rightarrow> blob \<Rightarrow> (pystr \<times> pystr) raises \<times> event list" where
  "extract_by_suffix_api env suffix path b =
     (if suffix = ascii ''.pdf'' then
        (case extract_pdf_text_api env path b of (t, evs) \<Rightarrow> (Inr (t, []), evs))
      else if suffix = ascii ''.docx'' then
        (case extract_docx_text_api env path b of (t, evs) \<Rightarrow> (Inr (t, []), evs))
      else if suffix \<in> image_extensions then
        (case extract_image_text_api env path b of (t, evs) \<Rightarrow> (Inr (t, []), evs))
      else if suffix = ascii ''.txt'' then
        (case read_utf8 env b of
           Inl e \<Rightarrow> (Inl e, [EvReadText path])
         | Inr t \<Rightarrow> (Inr (t, []), [EvReadText path]))
      else (Inr ([], ascii ''Unsupported file type''), []))"

text \<open>
  Lines 84-103, the branch \<^verbatim>\<open>if file:\<close>. \<^verbatim>\<open>NamedTemporaryFile\<close> creates the
  file (or raises, for a suffix it cannot use) and \<^verbatim>\<open>save\<close> writes the upload into it;
  both are outside the \<^verbatim>\<open>try\<close>, so their exceptions leave the handler, and one of
  \<^verbatim>\<open>save\<close> leaves the temporary file behind. After them, \<^verbatim>\<open>finally\<close> removes the file.
\<close>

definition file_branch_api ::
  "env \<Rightarrow> file_storage \<Rightarrow> 'h state \<Rightarrow> (pystr \<times> pystr) raises \<times> 'h state" where
  "file_branch_api env f st =
     (let suffix = splitext_lower env (filename f)
      in case named_temporary_file env suffix of
           Inl e \<Rightarrow> (Inl e, st)
         | Inr path \<Rightarrow>
             (case save_upload env path (content f) (st\<lparr>files := insert path (files st)\<rparr>) of
                (Some e, st1) \<Rightarrow> (Inl e, st1)
              | (None, st1) \<Rightarrow>
                  (case extract_by_suffix_api env suffix path (content f) of
                     (r, evs) \<Rightarrow>
                       (case os_remove path (log_calls evs st1) of
                          Inl e \<Rightarrow> (Inl e, log_calls evs st1)
                        | Inr st2 \<Rightarrow> (r, st2)))))"

text \<open>Lines 106-113, the branch \<^verbatim>\<open>elif url_input:\<close>.\<close>

definition url_branch_api ::
  "env \<Rightarrow> pystr \<Rightarrow> 'h state \<Rightarrow> (pystr \<times> pystr) raises \<times> 'h state" where
  "url_branch_api env url st =
     (case requests_get env url [] 10 of
        Inl e \<Rightarrow> (Inr ([], ascii ''URL error: '' @ e), log_calls [EvHttpGet url] st)
      | Inr html \<Rightarrow>
          (case soup_get_text env html nl False of
             Inl e \<Rightarrow>
               (Inr ([], ascii ''URL error: '' @ e), log_calls [EvHttpGet url, EvSoup html] st)
           | Inr t \<Rightarrow> (Inr (t, []), log_calls [EvHttpGet url, EvSoup html] st)))"

text \<open>Lines 84-120.\<close>

definition dispatch_api ::
  "env \<Rightarrow> request \<Rightarrow> 'h state \<Rightarrow> (pystr \<times> pystr) raises \<times> 'h state" where
  "dispatch_api env req st =
     (case truthy_file (uploaded_file req) of
        Some f \<Rightarrow> file_branch_api env f st
      | None \<Rightarrow>
          (case truthy_str (url_input req) of
             Some url \<Rightarrow> url_branch_api env url st
           | None \<Rightarrow>
               (case truthy_str (text_input req) of
                  Some t \<Rightarrow> (Inr (t, []), st)
                | None \<Rightarrow> (Inr ([], ascii ''No input provided''), st))))"

text \<open>Line 127, the f-string passed as \<^verbatim>\<open>prompt\<close>.\<close>

definition prompt_api :: "pystr \<Rightarrow> nat \<Rightarrow> pystr \<Rightarrow> pystr" where
  "prompt_api out_lang word_limit extracted_text =
     ascii ''Summarize in '' @ out_lang @ ascii '' within '' @ str_nat word_limit @
     ascii '' words:'' @ nl @ nl @ extracted_text"

text \<open>Lines 123-149.\<close>

definition summarize_api ::
  "env \<Rightarrow> pystr \<Rightarrow> nat \<Rightarrow> pystr \<Rightarrow> pystr \<Rightarrow> api_record state \<Rightarrow>
   api_record result \<times> api_record state" where
  "summarize_api env out_lang word_limit extracted_text error st =
     (if extracted_text \<noteq> [] \<and> error = [] then
        (let prompt = prompt_api out_lang word_limit extracted_text;
             st1 = log_calls [EvSummarize prompt] st
         in case generate_text env (ascii ''gemini-1.5-turbo'') prompt (word_limit * 2) of
              Inl e \<Rightarrow> (Response [] (ascii ''Gemini error: '' @ e) (summaries_history st1), st1)
            | Inr s \<Rightarrow>
                (let h = history_append_api (summaries_history st1)
                           \<lparr>time = now_isoformat env, summary_h = s\<rparr>
                 in (Response s error h, st1\<lparr>summaries_history := h\<rparr>)))
      else (Response [] error (summaries_history st), st))"

text \<open>Lines 68-149.\<close>

definition process_api ::
  "env \<Rightarrow> request \<Rightarrow> api_record state \<Rightarrow> api_record result \<times> api_record state" where
  "process_api env req st =
     (let out_lang = get_default (output_lang req) (ascii ''English'');
          sum_length = get_default (summary_length req) (ascii ''Medium'');
          word_limit = word_limit_of sum_length
      in case dispatch_api env req st of
           (Inl e, st1) \<Rightarrow> (Fault e, st1)
         | (Inr (extracted_text, error), st1) \<Rightarrow>
             summarize_api env out_lang word_limit extracted_text error st1)"

section \<open>Sequences of operations\<close>

text \<open>
  The operations on the process state: a POST to \<^verbatim>\<open>/process\<close>, with the behaviour of
  the outside world during that request, and a POST to the clear route.
\<close>

datatype op = Process env request | Clear

fun step_app :: "app_record state \<Rightarrow> op \<Rightarrow> app_record state" where
  "step_app st (Process env req) = snd (process_app env req st)"
| "step_app st Clear = clear_history st"

fun step_api :: "api_record state \<Rightarrow> op \<Rightarrow> api_record state" where
  "step_api st (Process env req) = snd (process_api env req st)"
| "step_api st Clear = clear_history st"

section \<open>Reading the call log\<close>

text \<open>The outside calls made between two states.\<close>

definition new_calls :: "'h state \<Rightarrow> 'h state \<Rightarrow> event list" where
  "new_calls st st' = drop (length (calls st)) (calls st')"

text \<open>
  The declared extensions under which a file request makes a call: staging, removal and
  summarization under any, an extractor's calls under its own extensions, the URL
  channel's calls under none.
\<close>

fun routed_for :: "event \<Rightarrow> pystr set" where
  "routed_for (EvPdfText p) = {ascii ''.pdf''}"
| "routed_for (EvPdfRender p a b) = {ascii ''.pdf''}"
| "routed_for (EvOcr i l c) = insert (ascii ''.pdf'') image_extensions"
| "routed_for (EvDocx p) = {ascii ''.docx''}"
| "routed_for (EvImageOpen p) = image_extensions"
| "routed_for (EvThumbnail i) = image_extensions"
| "routed_for (EvReadText p) = {ascii ''.txt''}"
| "routed_for (EvSave p) = UNIV"
| "routed_for (EvRemove p) = UNIV"
| "routed_for (EvSummarize p) = UNIV"
| "routed_for (EvHttpGet u) = {}"
| "routed_for (EvSoup h) = {}"

fun url_call :: "event \<Rightarrow> bool" where
  "url_call (EvHttpGet u) = True"
| "url_call (EvSoup h) = True"
| "url_call _ = False"

fun summarize_call :: "event \<Rightarrow> bool" where
  "summarize_call (EvSummarize p) = True"
| "summarize_call _ = False"

section \<open>Concrete worlds and requests\<close>

text \<open>
  A stand-in for \<^verbatim>\<open>os.path.splitext(name)[1].lower()\<close> on plain file names: the part
  from the last dot on, ASCII letters lowered.
\<close>

definition ext_of :: "pystr \<Rightarrow> pystr" where
  "ext_of name =
     (if 46 \<in> set name
      then map (\<lambda>c. if 65 \<le> c \<and> c \<le> 90 then c + 32 else c)
             (46 # rev (takeWhile (\<lambda>c. c \<noteq> 46) (rev name)))
      else [])"

text \<open>
  A world of scanned, blank documents: no PDF has a text layer, every PDF renders to one
  page, the OCR engine finds nothing on any page (its output is a form feed), the network
  is down, a text file decodes when it is ASCII, both summarization calls answer, staging
  succeeds, and a temporary file can be created unless its suffix is longer than 244
  characters (the name is the suffix behind eleven characters and a file name holds 255).
\<close>

definition world :: env where
  "world =
     \<lparr>splitext_lower = ext_of,
      extract_text = (\<lambda>b. Inr []),
      convert_from_path = (\<lambda>b first last. Inr [b]),
      image_to_string = (\<lambda>img lang config. Inr [0xC]),
      docx_paragraphs = (\<lambda>b. Inr [b]),
      image_open = (\<lambda>b. Inr b),
      thumbnail = (\<lambda>img size. Inr img),
      read_utf8 = (\<lambda>b. if list_all (\<lambda>c. c < 0x80) b then Inr b
                         else Inl (ascii ''invalid start byte'')),
      requests_get = (\<lambda>url headers timeout. Inl (ascii ''Connection refused'')),
      soup_get_text = (\<lambda>html sep strp. Inr html),
      generate_content = (\<lambda>model contents. Inr (ascii ''A summary.'')),
      generate_text = (\<lambda>model prompt limit. Inr (ascii ''A summary.'')),
      now_strftime = ascii ''2024-01-01 00:00:00'',
      now_isoformat = ascii ''2024-01-01T00:00:00'',
      named_temporary_file =
        (\<lambda>suffix. if 244 < length suffix then Inl (ascii ''File name too long'')
                  else Inr (ascii ''/tmp/tmpupload'' @ suffix)),
      makedirs = (\<lambda>name. Inr ()),
      save = (\<lambda>path b. Saved)\<rparr>"

text \<open>The same world with an OCR engine whose output on a blank page is the empty string.\<close>

definition world_silent_ocr :: env where
  "world_silent_ocr = world\<lparr>image_to_string := (\<lambda>img lang config. Inr [])\<rparr>"

text \<open>The same world with a PDF library that rejects every file.\<close>

definition world_corrupt_pdf :: env where
  "world_corrupt_pdf = world\<lparr>extract_text := (\<lambda>b. Inl (ascii ''No /Root object!''))\<rparr>"

text \<open>A freshly started process.\<close>

definition st0 :: "'h state" where
  "st0 = \<lparr>files = {}, summaries_history = [], calls = []\<rparr>"

definition empty_request :: request where
  "empty_request =
     \<lparr>text_input = None, url_input = None, uploaded_file = None, input_lang = None,
      output_lang = None, summary_length = None, summary_format = None\<rparr>"

definition upload :: "string \<Rightarrow> blob \<Rightarrow> request" where
  "upload name b =
     empty_request\<lparr>uploaded_file := Some \<lparr>filename = ascii name, content = b\<rparr>\<rparr>"

text \<open>A text that a user may paste: it begins with the warning sign.\<close>

definition warning_text :: pystr where
  "warning_text = warn @ ascii '' Caution: wet floor''"

text \<open>A request that fills all three channels, and one that fills the URL and the text.\<close>

definition all_channels_request :: request where
  "all_channels_request =
     (upload ''scan.pdf'' [37, 80, 68, 70])
       \<lparr>text_input := Some (ascii ''Hello world''),
        url_input := Some (ascii ''http://example.com'')\<rparr>"

definition url_and_text_request :: request where
  "url_and_text_request =
     empty_request
       \<lparr>text_input := Some (ascii ''Hello world''),
        url_input := Some (ascii ''http://example.com'')\<rparr>"

definition text_request :: request where
  "text_request = empty_request\<lparr>text_input := Some (ascii ''Hello world'')\<rparr>"

text \<open>
  The state after a file request that went through: the upload was staged at the path, the
  extractor made its calls, and the staged file was removed.
\<close>

definition staged_and_removed :: "pystr \<Rightarrow> event list \<Rightarrow> 'h state \<Rightarrow> 'h state" where
  "staged_and_removed path evs st =
     st\<lparr>files := files st - {path}, calls := calls st @ EvSave path # evs @ [EvRemove path]\<rparr>"

text \<open>An upload whose name ends in a dot and three hundred letters \<^verbatim>\<open>x\<close>.\<close>

definition long_name :: string where
  "long_name = ''report.'' @ replicate 300 (CHR ''x'')"



section \<open>The history buffer keeps the last five records\<close>

lemma window_snoc:
  "drop (Suc (length (drop (length rs - 5) rs)) - 5) (drop (length rs - 5) rs @ [r]) =
   drop (Suc (length rs) - 5) (rs @ [r])"
proof (cases "length rs < 5")
  case True
  then show ?thesis by simp
next
  case False
  then have n: "5 \<le> length rs" by simp
  then have len: "length (drop (length rs - 5) rs) = 5" by simp
  have a: "Suc (length rs) - 5 = Suc (length rs - 5)" using n by simp
  show ?thesis unfolding len a using n by (simp add: drop_Suc tl_drop)
qed

lemma history_append_api_eq: "history_append_api h r = drop (Suc (length h) - 5) (h @ [r])"
  unfolding history_append_api_def Let_def by simp

lemma history_append_app_eq:
  assumes "length h \<le> 5"
  shows "history_append_app h r = drop (Suc (length h) - 5) (h @ [r])"
proof (cases "length h = 5")
  case True
  then have "h \<noteq> []" by auto
  then show ?thesis using True unfolding history_append_app_def Let_def
    by (simp add: drop_Suc)
next
  case False
  then have "length h < 5" using assms by simp
  then show ?thesis unfolding history_append_app_def Let_def by simp
qed

lemma foldl_history_append_api: "foldl history_append_api [] rs = drop (length rs - 5) rs"
proof (induction rs rule: rev_induct)
  case Nil
  show ?case by simp
next
  case (snoc r rs)
  have "foldl history_append_api [] (rs @ [r]) = history_append_api (drop (length rs - 5) rs) r"
    by (simp add: snoc)
  also have "\<dots> = drop (Suc (length rs) - 5) (rs @ [r])"
    unfolding history_append_api_eq by (rule window_snoc)
  finally show ?case by simp
qed

lemma foldl_history_append_app: "foldl history_append_app [] rs = drop (length rs - 5) rs"
proof (induction rs rule: rev_induct)
  case Nil
  show ?case by simp
next
  case (snoc r rs)
  have le: "length (drop (length rs - 5) rs) \<le> 5" by simp
  have "foldl history_append_app [] (rs @ [r]) = history_append_app (drop (length rs - 5) rs) r"
    by (simp add: snoc)
  also have "\<dots> = drop (Suc (length rs) - 5) (rs @ [r])"
    unfolding history_append_app_eq [OF le] by (rule window_snoc)
  finally show ?case by simp
qed

lemma length_history_append_app:
  "length h \<le> 5 \<Longrightarrow> length (history_append_app h r) \<le> 5"
  by (simp add: history_append_app_eq)

lemma length_history_append_api: "length (history_append_api h r) \<le> 5"
  by (simp add: history_append_api_eq)

subsection \<open>Only the summarization step touches the history\<close>

lemma file_branch_app_history:
  "summaries_history (snd (file_branch_app env f l st)) = summaries_history st"
  by (auto simp: file_branch_app_def Let_def save_upload_def save_file_def log_calls_def
      os_remove_def split: prod.splits sum.splits save_result.splits option.splits)

lemma url_branch_app_history:
  "summaries_history (snd (url_branch_app env u st)) = summaries_history st"
  by (simp add: url_branch_app_def log_calls_def split: sum.splits)

lemma dispatch_app_history:
  "summaries_history (snd (dispatch_app env req l st)) = summaries_history st"
  by (simp add: dispatch_app_def file_branch_app_history url_branch_app_history
      split: option.splits)

lemma file_branch_api_history:
  "summaries_history (snd (file_branch_api env f st)) = summaries_history st"
  by (auto simp: file_branch_api_def Let_def save_upload_def save_file_def log_calls_def
      os_remove_def split: prod.splits sum.splits save_result.splits option.splits)

lemma url_branch_api_history:
  "summaries_history (snd (url_branch_api env u st)) = summaries_history st"
  by (simp add: url_branch_api_def log_calls_def split: sum.splits)

lemma dispatch_api_history:
  "summaries_history (snd (dispatch_api env req st)) = summaries_history st"
  by (simp add: dispatch_api_def file_branch_api_history url_branch_api_history
      split: option.splits)

lemma summarize_app_history_cases:
  "summaries_history (snd (summarize_app env ts ol sl sf wl fp t e st)) = summaries_history st \<or>
   (\<exists>r. summaries_history (snd (summarize_app env ts ol sl sf wl fp t e st)) =
        history_append_app (summaries_history st) r)"
  by (auto simp: summarize_app_def Let_def log_calls_def split: sum.splits)

lemma summarize_api_history_cases:
  "summaries_history (snd (summarize_api env ol wl t e st)) = summaries_history st \<or>
   (\<exists>r. summaries_history (snd (summarize_api env ol wl t e st)) =
        history_append_api (summaries_history st) r)"
  by (auto simp: summarize_api_def Let_def log_calls_def split: sum.splits)

lemma process_app_history_cases:
  "summaries_history (snd (process_app env req st)) = summaries_history st \<or>
   (\<exists>r. summaries_history (snd (process_app env req st)) =
        history_append_app (summaries_history st) r)"
proof (cases "dispatch_app env req (ocr_lang_of (or_default (input_lang req) (ascii ''English''))) st")
  case (Pair r st1)
  have h: "summaries_history st1 = summaries_history st"
    using dispatch_app_history [of env req _ st] Pair by (metis snd_conv)
  show ?thesis
  proof (cases r)
    case (Inl e)
    then show ?thesis using Pair h by (simp add: process_app_def Let_def)
  next
    case (Inr p)
    obtain t e where p: "p = (t, e)" by (cases p)
    show ?thesis
      using Pair Inr p h summarize_app_history_cases [of env _ _ _ _ _ _ t e st1]
      by (simp add: process_app_def Let_def)
  qed
qed

lemma process_api_history_cases:
  "summaries_history (snd (process_api env req st)) = summaries_history st \<or>
   (\<exists>r. summaries_history (snd (process_api env req st)) =
        history_append_api (summaries_history st) r)"
proof (cases "dispatch_api env req st")
  case (Pair r st1)
  have h: "summaries_history st1 = summaries_history st"
    using dispatch_api_history [of env req st] Pair by simp
  show ?thesis
  proof (cases r)
    case (Inl e)
    then show ?thesis using Pair h by (simp add: process_api_def Let_def)
  next
    case (Inr p)
    obtain t e where p: "p = (t, e)" by (cases p)
    show ?thesis
      using Pair Inr p h summarize_api_history_cases [of env _ _ t e st1]
      by (simp add: process_api_def Let_def)
  qed
qed

lemma step_app_bounded:
  "length (summaries_history st) \<le> 5 \<Longrightarrow> length (summaries_history (step_app st x)) \<le> 5"
proof (cases x)
  case (Process env req)
  assume "length (summaries_history st) \<le> 5"
  then show ?thesis
    using Process process_app_history_cases [of env req st]
    by (auto simp: length_history_append_app)
next
  case Clear
  then show ?thesis by (simp add: clear_history_def)
qed

lemma step_api_bounded:
  "length (summaries_history st) \<le> 5 \<Longrightarrow> length (summaries_history (step_api st x)) \<le> 5"
proof (cases x)
  case (Process env req)
  assume "length (summaries_history st) \<le> 5"
  then show ?thesis
    using Process process_api_history_cases [of env req st]
    by (auto simp: length_history_append_api)
next
  case Clear
  then show ?thesis by (simp add: clear_history_def)
qed

lemma run_app_bounded:
  "length (summaries_history st) \<le> 5 \<Longrightarrow>
   length (summaries_history (foldl step_app st ops)) \<le> 5"
  by (induction ops arbitrary: st) (simp_all add: step_app_bounded)

lemma run_api_bounded:
  "length (summaries_history st) \<le> 5 \<Longrightarrow>
   length (summaries_history (foldl step_api st ops)) \<le> 5"
  by (induction ops arbitrary: st) (simp_all add: step_api_bounded)

text \<open>
  Claim C3. Appending any sequence of records \<open>rs\<close> to an empty history, with the append
  step of either handler, leaves exactly the last five of them in their original order
  (all of them when there are at most five), so \<open>min (length rs) 5\<close> records; and after any
  sequence of requests and clears that starts from an empty history, the history holds at
  most five records.
\<close>

theorem history_buffer_fifo:
  "foldl history_append_app [] rs = drop (length rs - 5) rs \<and>
   foldl history_append_api [] rs = drop (length rs - 5) rs \<and>
   length (foldl history_append_app [] rs) = min (length rs) 5 \<and>
   length (foldl history_append_api [] rs) = min (length rs) 5 \<and>
   length (summaries_history (foldl step_app (clear_history st) ops)) \<le> 5 \<and>
   length (summaries_history (foldl step_api (clear_history st') ops)) \<le> 5"
proof -
  have a: "length (summaries_history (foldl step_app (clear_history st) ops)) \<le> 5"
    by (rule run_app_bounded) (simp add: clear_history_def)
  have b: "length (summaries_history (foldl step_api (clear_history st') ops)) \<le> 5"
    by (rule run_api_bounded) (simp add: clear_history_def)
  have c: "length (drop (length rs - 5) rs) = min (length rs) 5" by (simp add: min_def)
  show ?thesis
    unfolding foldl_history_append_app foldl_history_append_api using a b c by simp
qed

section \<open>Blank text and the sentinel prefix\<close>

lemma strip_eq_Nil_iff: "strip s = [] \<longleftrightarrow> (\<forall>c\<in>set s. isspace c)"
proof
  assume a: "strip s = []"
  show "\<forall>c\<in>set s. isspace c"
  proof (rule ccontr)
    assume "\<not> (\<forall>c\<in>set s. isspace c)"
    then have ne: "dropWhile isspace s \<noteq> []" by simp
    then have "\<not> isspace (hd (dropWhile isspace s))" by (rule hd_dropWhile)
    moreover have "hd (dropWhile isspace s) \<in> set (dropWhile isspace s)" using ne by simp
    moreover have "\<forall>c\<in>set (dropWhile isspace s). isspace c"
      using a by (simp add: strip_def)
    ultimately show False by blast
  qed
next
  assume "\<forall>c\<in>set s. isspace c"
  then have d: "dropWhile isspace s = []" by simp
  show "strip s = []" unfolding strip_def d by simp
qed

lemma startswith_warn_nonblank: "startswith t warn \<Longrightarrow> strip t \<noteq> []"
proof -
  assume "startswith t warn"
  then have "take (length warn) t = warn" by (simp add: startswith_def)
  then have "t = warn @ drop (length warn) t" by (metis append_take_drop_id)
  then have "set warn \<subseteq> set t" by (metis set_append Un_upper1)
  then have "0x26A0 \<in> set t" by (auto simp: warn_def)
  moreover have "\<not> isspace 0x26A0" by (simp add: isspace_def)
  ultimately show ?thesis by (auto simp: strip_eq_Nil_iff)
qed

lemma startswith_warn_append: "startswith (warn @ x) warn"
  by (simp add: startswith_def)

text \<open>
  Claim C10. In \<^verbatim>\<open>app.py\<close>, when the text field is the only effective input (no
  file, no URL) and its text begins with the sentinel prefix, the text is not blank, yet
  the handler answers with an empty summary and an empty error message and leaves the
  whole state as it was: no call to the summarization service, no history entry.
\<close>

theorem sentinel_text_rejected_app:
  assumes "truthy_file (uploaded_file req) = None"
    and "truthy_str (url_input req) = None"
    and "text_input req = Some t"
    and "startswith t warn"
  shows "strip t \<noteq> [] \<and>
         process_app env req st = (Response [] [] (summaries_history st), st)"
proof -
  have ne: "strip t \<noteq> []" using assms(4) by (rule startswith_warn_nonblank)
  then have "t \<noteq> []" by (auto simp: strip_def)
  then have tr: "truthy_str (text_input req) = Some t" using assms(3) by (simp add: truthy_str_def)
  have "dispatch_app env req l st = (Inr (t, []), st)" for l
    using assms(1,2) tr by (simp add: dispatch_app_def)
  then have "process_app env req st = (Response [] [] (summaries_history st), st)"
    using assms(4) by (simp add: process_app_def Let_def summarize_app_def)
  then show ?thesis using ne by simp
qed

theorem sentinel_text_rejected_app_witness:
  "strip warning_text \<noteq> [] \<and>
   process_app world (empty_request\<lparr>text_input := Some warning_text\<rparr>) st0 =
     (Response [] [] [], st0)"
proof -
  have a: "truthy_file (uploaded_file (empty_request\<lparr>text_input := Some warning_text\<rparr>)) = None"
    by (simp add: empty_request_def truthy_file_def)
  have b: "truthy_str (url_input (empty_request\<lparr>text_input := Some warning_text\<rparr>)) = None"
    by (simp add: empty_request_def truthy_str_def)
  have c: "text_input (empty_request\<lparr>text_input := Some warning_text\<rparr>) = Some warning_text"
    by simp
  have d: "startswith warning_text warn"
    unfolding warning_text_def by (rule startswith_warn_append)
  show ?thesis
    using sentinel_text_rejected_app [OF a b c d, of world st0] by (simp add: st0_def)
qed

section \<open>The calls of each channel\<close>

lemma ocr_pages_app_calls:
  "(\<And>i l c. P (EvOcr i l c)) \<Longrightarrow> list_all P (snd (ocr_pages_app env lang imgs acc))"
  by (induction imgs arbitrary: acc) (simp_all add: case_prod_beta split: sum.splits)

lemma ocr_pages_api_calls:
  "(\<And>i l c. P (EvOcr i l c)) \<Longrightarrow> list_all P (snd (ocr_pages_api env imgs))"
  by (induction imgs) (simp_all add: case_prod_beta split: sum.splits)

lemma extract_pdf_text_app_calls:
  assumes "P (EvPdfText p)" and "P (EvPdfRender p 1 1)" and "\<And>i l c. P (EvOcr i l c)"
  shows "list_all P (snd (extract_pdf_text_app env p b lang))"
  using assms ocr_pages_app_calls [of P env lang _ "[]"]
  by (simp add: extract_pdf_text_app_def case_prod_beta split: sum.splits)

lemma extract_pdf_text_api_calls:
  assumes "P (EvPdfText p)" and "P (EvPdfRender p 1 1)" and "\<And>i l c. P (EvOcr i l c)"
  shows "list_all P (snd (extract_pdf_text_api env p b))"
  using assms ocr_pages_api_calls [of P env]
  by (simp add: extract_pdf_text_api_def case_prod_beta split: sum.splits)

lemma extract_by_ext_app_calls:
  "list_all (\<lambda>ev. file_ext \<in> routed_for ev)
     (snd (extract_by_ext_app env file_ext file_path b lang))"
proof -
  have pdf: "list_all (\<lambda>ev. ascii ''.pdf'' \<in> routed_for ev)
      (snd (extract_pdf_text_app env file_path b lang))"
    by (rule extract_pdf_text_app_calls) simp_all
  have docx: "list_all (\<lambda>ev. ascii ''.docx'' \<in> routed_for ev)
      (snd (extract_docx_text_app env file_path b))"
    by (simp add: extract_docx_text_app_def split: sum.splits)
  have img: "file_ext \<in> image_extensions \<Longrightarrow> list_all (\<lambda>ev. file_ext \<in> routed_for ev)
      (snd (extract_image_text_app env file_path b lang))"
    by (simp add: extract_image_text_app_def split: sum.splits)
  show ?thesis
    using pdf docx img by (simp add: extract_by_ext_app_def case_prod_beta)
qed

lemma extract_by_suffix_api_calls:
  "list_all (\<lambda>ev. suffix \<in> routed_for ev) (snd (extract_by_suffix_api env suffix path b))"
proof -
  have pdf: "list_all (\<lambda>ev. ascii ''.pdf'' \<in> routed_for ev)
      (snd (extract_pdf_text_api env path b))"
    by (rule extract_pdf_text_api_calls) simp_all
  have docx: "list_all (\<lambda>ev. ascii ''.docx'' \<in> routed_for ev)
      (snd (extract_docx_text_api env path b))"
    by (simp add: extract_docx_text_api_def split: sum.splits)
  have img: "suffix \<in> image_extensions \<Longrightarrow> list_all (\<lambda>ev. suffix \<in> routed_for ev)
      (snd (extract_image_text_api env path b))"
    by (simp add: extract_image_text_api_def split: sum.splits)
  show ?thesis
    using pdf docx img
    by (simp add: extract_by_suffix_api_def case_prod_beta split: sum.splits)
qed

lemma save_upload_calls: "calls (snd (save_upload env p b st)) = calls st @ [EvSave p]"
  by (simp add: save_upload_def save_file_def split: save_result.splits)

lemma file_branch_app_calls:
  "\<exists>evs. calls (snd (file_branch_app env f lang st)) = calls st @ evs \<and>
         list_all (\<lambda>ev. splitext_lower env (filename f) \<in> routed_for ev) evs"
proof (cases "splitext_lower env (filename f) \<in> valid_extensions")
  case False
  then show ?thesis by (simp add: file_branch_app_def Let_def)
next
  case True
  let ?p = "path_join (ascii ''Uploads'') (filename f)"
  let ?x = "extract_by_ext_app env (splitext_lower env (filename f)) ?p (content f) lang"
  have evs: "list_all (\<lambda>ev. splitext_lower env (filename f) \<in> routed_for ev) (snd ?x)"
    by (rule extract_by_ext_app_calls)
  obtain r es where x: "?x = (r, es)" by (cases ?x)
  obtain o1 st1 where s: "save_upload env ?p (content f) st = (o1, st1)"
    by (cases "save_upload env ?p (content f) st")
  have c1: "calls st1 = calls st @ [EvSave ?p]"
    using save_upload_calls [of env ?p "content f" st] s by simp
  have "calls (snd (file_branch_app env f lang st)) = calls st @ [] \<or>
        calls (snd (file_branch_app env f lang st)) = calls st @ [EvSave ?p] \<or>
        calls (snd (file_branch_app env f lang st)) = calls st @ (EvSave ?p # es) \<or>
        calls (snd (file_branch_app env f lang st)) = calls st @ (EvSave ?p # es @ [EvRemove ?p])"
    using True x s c1
    by (auto simp: file_branch_app_def Let_def log_calls_def os_remove_def
        split: sum.splits option.splits)
  moreover have "list_all (\<lambda>ev. splitext_lower env (filename f) \<in> routed_for ev) []"
    and "list_all (\<lambda>ev. splitext_lower env (filename f) \<in> routed_for ev) [EvSave ?p]"
    and "list_all (\<lambda>ev. splitext_lower env (filename f) \<in> routed_for ev) (EvSave ?p # es)"
    and "list_all (\<lambda>ev. splitext_lower env (filename f) \<in> routed_for ev)
           (EvSave ?p # es @ [EvRemove ?p])"
    using evs x by simp_all
  ultimately show ?thesis by blast
qed

lemma file_branch_api_calls:
  "\<exists>evs. calls (snd (file_branch_api env f st)) = calls st @ evs \<and>
         list_all (\<lambda>ev. splitext_lower env (filename f) \<in> routed_for ev) evs"
proof (cases "named_temporary_file env (splitext_lower env (filename f))")
  case (Inl e)
  then have "calls (snd (file_branch_api env f st)) = calls st @ []"
    by (simp add: file_branch_api_def Let_def)
  moreover have "list_all (\<lambda>ev. splitext_lower env (filename f) \<in> routed_for ev) []" by simp
  ultimately show ?thesis by blast
next
  case (Inr p)
  let ?s = "splitext_lower env (filename f)"
  let ?x = "extract_by_suffix_api env ?s p (content f)"
  let ?st = "st\<lparr>files := insert p (files st)\<rparr>"
  have evs: "list_all (\<lambda>ev. ?s \<in> routed_for ev) (snd ?x)"
    by (rule extract_by_suffix_api_calls)
  obtain r es where x: "?x = (r, es)" by (cases ?x)
  obtain o1 st1 where s: "save_upload env p (content f) ?st = (o1, st1)"
    by (cases "save_upload env p (content f) ?st")
  have c1: "calls st1 = calls st @ [EvSave p]"
    using save_upload_calls [of env p "content f" ?st] s by simp
  have "calls (snd (file_branch_api env f st)) = calls st @ [EvSave p] \<or>
        calls (snd (file_branch_api env f st)) = calls st @ (EvSave p # es) \<or>
        calls (snd (file_branch_api env f st)) = calls st @ (EvSave p # es @ [EvRemove p])"
    using Inr x s c1
    by (auto simp: file_branch_api_def Let_def log_calls_def os_remove_def
        split: sum.splits option.splits)
  moreover have "list_all (\<lambda>ev. ?s \<in> routed_for ev) [EvSave p]"
    and "list_all (\<lambda>ev. ?s \<in> routed_for ev) (EvSave p # es)"
    and "list_all (\<lambda>ev. ?s \<in> routed_for ev) (EvSave p # es @ [EvRemove p])"
    using evs x by simp_all
  ultimately show ?thesis by blast
qed

lemma url_branch_app_calls:
  "\<exists>evs. calls (snd (url_branch_app env u st)) = calls st @ EvHttpGet u # evs \<and>
         list_all url_call evs"
  by (simp add: url_branch_app_def log_calls_def split: sum.splits)

lemma url_branch_api_calls:
  "\<exists>evs. calls (snd (url_branch_api env u st)) = calls st @ EvHttpGet u # evs \<and>
         list_all url_call evs"
  by (simp add: url_branch_api_def log_calls_def split: sum.splits)

lemma summarize_app_calls:
  "\<exists>evs. calls (snd (summarize_app env ts ol sl sf wl fp t e st)) = calls st @ evs \<and>
         list_all summarize_call evs"
  by (simp add: summarize_app_def Let_def log_calls_def split: sum.splits)

lemma summarize_api_calls:
  "\<exists>evs. calls (snd (summarize_api env ol wl t e st)) = calls st @ evs \<and>
         list_all summarize_call evs"
  by (simp add: summarize_api_def Let_def log_calls_def split: sum.splits)

lemma process_app_calls:
  assumes "calls (snd (dispatch_app env req
             (ocr_lang_of (or_default (input_lang req) (ascii ''English''))) st)) = calls st @ evs"
  shows "\<exists>evs'. new_calls st (snd (process_app env req st)) = evs @ evs' \<and>
               list_all summarize_call evs'"
proof -
  let ?d = "dispatch_app env req (ocr_lang_of (or_default (input_lang req) (ascii ''English''))) st"
  obtain r st1 where d: "?d = (r, st1)" by (cases ?d)
  then have c1: "calls st1 = calls st @ evs" using assms by simp
  show ?thesis
  proof (cases r)
    case (Inl e)
    then have "new_calls st (snd (process_app env req st)) = evs @ []"
      using d c1 by (simp add: process_app_def Let_def new_calls_def)
    moreover have "list_all summarize_call []" by simp
    ultimately show ?thesis by blast
  next
    case (Inr p)
    obtain t err where p: "p = (t, err)" by (cases p)
    obtain evs' where e: "calls (snd (summarize_app env (now_strftime env)
          (or_default (output_lang req) (ascii ''English''))
          (or_default (summary_length req) (ascii ''Medium''))
          (or_default (summary_format req) (ascii ''Paragraph''))
          (word_limit_of (or_default (summary_length req) (ascii ''Medium'')))
          (format_prompt_of (or_default (summary_format req) (ascii ''Paragraph'')))
          t err st1)) = calls st1 @ evs'" and l: "list_all summarize_call evs'"
      using summarize_app_calls by blast
    have "new_calls st (snd (process_app env req st)) = evs @ evs'"
      using d Inr p e c1 by (simp add: process_app_def Let_def new_calls_def)
    then show ?thesis using l by blast
  qed
qed

lemma process_api_calls:
  assumes "calls (snd (dispatch_api env req st)) = calls st @ evs"
  shows "\<exists>evs'. new_calls st (snd (process_api env req st)) = evs @ evs' \<and>
               list_all summarize_call evs'"
proof -
  obtain r st1 where d: "dispatch_api env req st = (r, st1)" by (cases "dispatch_api env req st")
  then have c1: "calls st1 = calls st @ evs" using assms by simp
  show ?thesis
  proof (cases r)
    case (Inl e)
    then have "new_calls st (snd (process_api env req st)) = evs @ []"
      using d c1 by (simp add: process_api_def Let_def new_calls_def)
    moreover have "list_all summarize_call []" by simp
    ultimately show ?thesis by blast
  next
    case (Inr p)
    obtain t err where p: "p = (t, err)" by (cases p)
    obtain evs' where e: "calls (snd (summarize_api env
          (get_default (output_lang req) (ascii ''English''))
          (word_limit_of (get_default (summary_length req) (ascii ''Medium'')))
          t err st1)) = calls st1 @ evs'" and l: "list_all summarize_call evs'"
      using summarize_api_calls by blast
    have "new_calls st (snd (process_api env req st)) = evs @ evs'"
      using d Inr p e c1 by (simp add: process_api_def Let_def new_calls_def)
    then show ?thesis using l by blast
  qed
qed

lemma summarize_call_routed: "summarize_call ev \<Longrightarrow> x \<in> routed_for ev"
  by (cases ev) simp_all

lemma list_all_weaken: "list_all P xs \<Longrightarrow> (\<And>x. P x \<Longrightarrow> Q x) \<Longrightarrow> list_all Q xs"
  by (induction xs) auto

lemma file_request_calls_app:
  assumes "truthy_file (uploaded_file req) = Some f"
  shows "list_all (\<lambda>ev. splitext_lower env (filename f) \<in> routed_for ev)
           (new_calls st (snd (process_app env req st)))"
proof -
  let ?l = "ocr_lang_of (or_default (input_lang req) (ascii ''English''))"
  have d: "dispatch_app env req ?l st = file_branch_app env f ?l st"
    using assms by (simp add: dispatch_app_def)
  obtain evs where a: "calls (snd (file_branch_app env f ?l st)) = calls st @ evs"
    and b: "list_all (\<lambda>ev. splitext_lower env (filename f) \<in> routed_for ev) evs"
    using file_branch_app_calls by blast
  obtain evs' where c: "new_calls st (snd (process_app env req st)) = evs @ evs'"
    and e: "list_all summarize_call evs'"
    using process_app_calls [of env req st evs] a d by auto
  have "list_all (\<lambda>ev. splitext_lower env (filename f) \<in> routed_for ev) evs'"
    using e by (rule list_all_weaken) (rule summarize_call_routed)
  then show ?thesis using b c by simp
qed

lemma file_request_calls_api:
  assumes "truthy_file (uploaded_file req) = Some f"
  shows "list_all (\<lambda>ev. splitext_lower env (filename f) \<in> routed_for ev)
           (new_calls st (snd (process_api env req st)))"
proof -
  have d: "dispatch_api env req st = file_branch_api env f st"
    using assms by (simp add: dispatch_api_def)
  obtain evs where a: "calls (snd (file_branch_api env f st)) = calls st @ evs"
    and b: "list_all (\<lambda>ev. splitext_lower env (filename f) \<in> routed_for ev) evs"
    using file_branch_api_calls by blast
  obtain evs' where c: "new_calls st (snd (process_api env req st)) = evs @ evs'"
    and e: "list_all summarize_call evs'"
    using process_api_calls [of env req st evs] a d by auto
  have "list_all (\<lambda>ev. splitext_lower env (filename f) \<in> routed_for ev) evs'"
    using e by (rule list_all_weaken) (rule summarize_call_routed)
  then show ?thesis using b c by simp
qed

lemma url_request_calls_app:
  assumes "truthy_file (uploaded_file req) = None" and "truthy_str (url_input req) = Some u"
  shows "\<exists>evs. new_calls st (snd (process_app env req st)) = EvHttpGet u # evs \<and>
               list_all (\<lambda>ev. url_call ev \<or> summarize_call ev) evs"
proof -
  let ?l = "ocr_lang_of (or_default (input_lang req) (ascii ''English''))"
  have d: "dispatch_app env req ?l st = url_branch_app env u st"
    using assms by (simp add: dispatch_app_def)
  obtain evs where a: "calls (snd (url_branch_app env u st)) = calls st @ EvHttpGet u # evs"
    and b: "list_all url_call evs"
    using url_branch_app_calls by blast
  obtain evs' where c: "new_calls st (snd (process_app env req st)) = (EvHttpGet u # evs) @ evs'"
    and e: "list_all summarize_call evs'"
    using process_app_calls [of env req st "EvHttpGet u # evs"] a d by auto
  have "list_all (\<lambda>ev. url_call ev \<or> summarize_call ev) (evs @ evs')"
    using b e by (auto simp: list_all_iff)
  then show ?thesis using c by simp
qed

lemma url_request_calls_api:
  assumes "truthy_file (uploaded_file req) = None" and "truthy_str (url_input req) = Some u"
  shows "\<exists>evs. new_calls st (snd (process_api env req st)) = EvHttpGet u # evs \<and>
               list_all (\<lambda>ev. url_call ev \<or> summarize_call ev) evs"
proof -
  have d: "dispatch_api env req st = url_branch_api env u st"
    using assms by (simp add: dispatch_api_def)
  obtain evs where a: "calls (snd (url_branch_api env u st)) = calls st @ EvHttpGet u # evs"
    and b: "list_all url_call evs"
    using url_branch_api_calls by blast
  obtain evs' where c: "new_calls st (snd (process_api env req st)) = (EvHttpGet u # evs) @ evs'"
    and e: "list_all summarize_call evs'"
    using process_api_calls [of env req st "EvHttpGet u # evs"] a d by auto
  have "list_all (\<lambda>ev. url_call ev \<or> summarize_call ev) (evs @ evs')"
    using b e by (auto simp: list_all_iff)
  then show ?thesis using c by simp
qed

lemma text_request_calls_app:
  assumes "truthy_file (uploaded_file req) = None" and "truthy_str (url_input req) = None"
  shows "list_all summarize_call (new_calls st (snd (process_app env req st)))"
proof -
  let ?l = "ocr_lang_of (or_default (input_lang req) (ascii ''English''))"
  have "calls (snd (dispatch_app env req ?l st)) = calls st @ []"
    using assms by (simp add: dispatch_app_def split: option.splits)
  then show ?thesis using process_app_calls [of env req st "[]"] by auto
qed

lemma text_request_calls_api:
  assumes "truthy_file (uploaded_file req) = None" and "truthy_str (url_input req) = None"
  shows "list_all summarize_call (new_calls st (snd (process_api env req st)))"
proof -
  have "calls (snd (dispatch_api env req st)) = calls st @ []"
    using assms by (simp add: dispatch_api_def split: option.splits)
  then show ?thesis using process_api_calls [of env req st "[]"] by auto
qed

section \<open>Each extension runs its own extractor\<close>

lemma extension_facts:
  "ascii ''.pdf'' \<in> valid_extensions" "ascii ''.docx'' \<in> valid_extensions"
  "ascii ''.txt'' \<in> valid_extensions" "image_extensions \<subseteq> valid_extensions"
  "ascii ''.docx'' \<noteq> ascii ''.pdf''" "ascii ''.txt'' \<noteq> ascii ''.pdf''"
  "ascii ''.txt'' \<noteq> ascii ''.docx''" "ascii ''.pdf'' \<notin> image_extensions"
  "ascii ''.docx'' \<notin> image_extensions" "ascii ''.txt'' \<notin> image_extensions"
  by (simp_all add: valid_extensions_def image_extensions_def ascii_def)

lemma not_valid_extension:
  assumes "x \<notin> valid_extensions"
  shows "x \<noteq> ascii ''.pdf''" "x \<noteq> ascii ''.docx''" "x \<noteq> ascii ''.txt''"
    "x \<notin> image_extensions"
  using assms unfolding valid_extensions_def image_extensions_def by blast+

lemma image_extension_facts:
  assumes "x \<in> image_extensions"
  shows "x \<in> valid_extensions" "x \<noteq> ascii ''.pdf''" "x \<noteq> ascii ''.docx''" "x \<noteq> ascii ''.txt''"
  using assms extension_facts by auto

lemma staged_app:
  assumes "splitext_lower env (filename f) \<in> valid_extensions"
    and "makedirs env (ascii ''Uploads'') = Inr ()"
    and "save env (path_join (ascii ''Uploads'') (filename f)) (content f) = Saved"
    and "extract_by_ext_app env (splitext_lower env (filename f))
           (path_join (ascii ''Uploads'') (filename f)) (content f) lang = (Inr t, evs)"
  shows "file_branch_app env f lang st =
           (Inr (t, []), staged_and_removed (path_join (ascii ''Uploads'') (filename f)) evs st)"
  using assms
  by (simp add: file_branch_app_def Let_def save_upload_def save_file_def log_calls_def
      os_remove_def staged_and_removed_def)

lemma staged_api:
  assumes "named_temporary_file env (splitext_lower env (filename f)) = Inr p"
    and "save env p (content f) = Saved"
    and "extract_by_suffix_api env (splitext_lower env (filename f)) p (content f) = (r, evs)"
  shows "file_branch_api env f st = (r, staged_and_removed p evs st)"
  using assms
  by (simp add: file_branch_api_def Let_def save_upload_def save_file_def log_calls_def
      os_remove_def staged_and_removed_def)

lemma file_routing_app:
  assumes f: "truthy_file (uploaded_file req) = Some f"
    and x: "x = splitext_lower env (filename f)"
    and p: "p = path_join (ascii ''Uploads'') (filename f)"
  shows "(x \<notin> valid_extensions \<longrightarrow>
            dispatch_app env req lang st =
              (Inr ([], warn @ ascii '' Unsupported file type: '' @ x), st)) \<and>
         (makedirs env (ascii ''Uploads'') = Inr () \<and> save env p (content f) = Saved \<longrightarrow>
            (x = ascii ''.pdf'' \<longrightarrow>
               dispatch_app env req lang st =
                 (Inr (fst (extract_pdf_text_app env p (content f) lang), []),
                  staged_and_removed p (snd (extract_pdf_text_app env p (content f) lang)) st)) \<and>
            (x = ascii ''.docx'' \<longrightarrow>
               dispatch_app env req lang st =
                 (Inr (fst (extract_docx_text_app env p (content f)), []),
                  staged_and_removed p (snd (extract_docx_text_app env p (content f))) st)) \<and>
            (x \<in> image_extensions \<longrightarrow>
               dispatch_app env req lang st =
                 (Inr (fst (extract_image_text_app env p (content f) lang), []),
                  staged_and_removed p (snd (extract_image_text_app env p (content f) lang)) st)) \<and>
            (x = ascii ''.txt'' \<and> read_utf8 env (content f) = Inr t \<longrightarrow>
               dispatch_app env req lang st =
                 (Inr (t, []), staged_and_removed p [EvReadText p] st)))"
proof -
  have d: "dispatch_app env req lang st = file_branch_app env f lang st"
    using f by (simp add: dispatch_app_def)
  have 0: "x \<notin> valid_extensions \<Longrightarrow>
      dispatch_app env req lang st = (Inr ([], warn @ ascii '' Unsupported file type: '' @ x), st)"
    unfolding d x by (simp add: file_branch_app_def Let_def)
  have 1: "dispatch_app env req lang st =
        (Inr (fst (extract_pdf_text_app env p (content f) lang), []),
         staged_and_removed p (snd (extract_pdf_text_app env p (content f) lang)) st)"
    if "makedirs env (ascii ''Uploads'') = Inr ()" "save env p (content f) = Saved"
      "x = ascii ''.pdf''"
    unfolding d p
    by (rule staged_app)
      (use that x p extension_facts in \<open>simp_all add: extract_by_ext_app_def case_prod_beta\<close>)
  have 2: "dispatch_app env req lang st =
        (Inr (fst (extract_docx_text_app env p (content f)), []),
         staged_and_removed p (snd (extract_docx_text_app env p (content f))) st)"
    if "makedirs env (ascii ''Uploads'') = Inr ()" "save env p (content f) = Saved"
      "x = ascii ''.docx''"
    unfolding d p
    by (rule staged_app)
      (use that x p extension_facts in \<open>simp_all add: extract_by_ext_app_def case_prod_beta\<close>)
  have 3: "dispatch_app env req lang st =
        (Inr (fst (extract_image_text_app env p (content f) lang), []),
         staged_and_removed p (snd (extract_image_text_app env p (content f) lang)) st)"
    if "makedirs env (ascii ''Uploads'') = Inr ()" "save env p (content f) = Saved"
      "x \<in> image_extensions"
    unfolding d p
    by (rule staged_app)
      (use that x p image_extension_facts [OF that(3)] in
        \<open>simp_all add: extract_by_ext_app_def case_prod_beta\<close>)
  have 4: "dispatch_app env req lang st = (Inr (t, []), staged_and_removed p [EvReadText p] st)"
    if "makedirs env (ascii ''Uploads'') = Inr ()" "save env p (content f) = Saved"
      "x = ascii ''.txt''" "read_utf8 env (content f) = Inr t"
    unfolding d p
    by (rule staged_app)
      (use that x p extension_facts in \<open>simp_all add: extract_by_ext_app_def case_prod_beta\<close>)
  show ?thesis using 0 1 2 3 4 by blast
qed

lemma file_routing_api:
  assumes f: "truthy_file (uploaded_file req) = Some f"
    and x: "x = splitext_lower env (filename f)"
    and p: "named_temporary_file env x = Inr p"
    and s: "save env p (content f) = Saved"
  shows "(x = ascii ''.pdf'' \<longrightarrow>
            dispatch_api env req st =
              (Inr (fst (extract_pdf_text_api env p (content f)), []),
               staged_and_removed p (snd (extract_pdf_text_api env p (content f))) st)) \<and>
         (x = ascii ''.docx'' \<longrightarrow>
            dispatch_api env req st =
              (Inr (fst (extract_docx_text_api env p (content f)), []),
               staged_and_removed p (snd (extract_docx_text_api env p (content f))) st)) \<and>
         (x \<in> image_extensions \<longrightarrow>
            dispatch_api env req st =
              (Inr (fst (extract_image_text_api env p (content f)), []),
               staged_and_removed p (snd (extract_image_text_api env p (content f))) st)) \<and>
         (x = ascii ''.txt'' \<and> read_utf8 env (content f) = Inr t \<longrightarrow>
            dispatch_api env req st = (Inr (t, []), staged_and_removed p [EvReadText p] st)) \<and>
         (x \<notin> valid_extensions \<longrightarrow>
            dispatch_api env req st =
              (Inr ([], ascii ''Unsupported file type''), staged_and_removed p [] st))"
proof -
  have d: "dispatch_api env req st = file_branch_api env f st"
    using f by (simp add: dispatch_api_def)
  note st = staged_api [of env f p, OF p [unfolded x] s]
  have 1: "x = ascii ''.pdf'' \<Longrightarrow> dispatch_api env req st =
        (Inr (fst (extract_pdf_text_api env p (content f)), []),
         staged_and_removed p (snd (extract_pdf_text_api env p (content f))) st)"
    unfolding d by (rule st) (use x in \<open>simp add: extract_by_suffix_api_def case_prod_beta\<close>)
  have 2: "x = ascii ''.docx'' \<Longrightarrow> dispatch_api env req st =
        (Inr (fst (extract_docx_text_api env p (content f)), []),
         staged_and_removed p (snd (extract_docx_text_api env p (content f))) st)"
    unfolding d
    by (rule st) (use x extension_facts in \<open>simp add: extract_by_suffix_api_def case_prod_beta\<close>)
  have 3: "x \<in> image_extensions \<Longrightarrow> dispatch_api env req st =
        (Inr (fst (extract_image_text_api env p (content f)), []),
         staged_and_removed p (snd (extract_image_text_api env p (content f))) st)"
    unfolding d
    by (rule st)
      (use x image_extension_facts in \<open>simp add: extract_by_suffix_api_def case_prod_beta\<close>)
  have 4: "x = ascii ''.txt'' \<Longrightarrow> read_utf8 env (content f) = Inr t \<Longrightarrow>
      dispatch_api env req st = (Inr (t, []), staged_and_removed p [EvReadText p] st)"
    unfolding d
    by (rule st) (use x extension_facts in \<open>simp add: extract_by_suffix_api_def\<close>)
  have 5: "x \<notin> valid_extensions \<Longrightarrow> dispatch_api env req st =
        (Inr ([], ascii ''Unsupported file type''), staged_and_removed p [] st)"
    unfolding d
    by (rule st)
      (use x not_valid_extension [of x] in \<open>simp add: extract_by_suffix_api_def\<close>)
  show ?thesis using 1 2 3 4 5 by blast
qed

lemma url_routing_app:
  assumes "truthy_file (uploaded_file req) = None" and "truthy_str (url_input req) = Some u"
  shows "(requests_get env u [(ascii ''User-Agent'', ascii ''GlobalTextSummarizerBot/1.0'')] 5
            = Inr html \<and> soup_get_text env html nl True = Inr t \<longrightarrow>
            dispatch_app env req lang st =
              (Inr (t, []), log_calls [EvHttpGet u, EvSoup html] st)) \<and>
         (requests_get env u [(ascii ''User-Agent'', ascii ''GlobalTextSummarizerBot/1.0'')] 5
            = Inl e \<longrightarrow>
            dispatch_app env req lang st =
              (Inr ([], warn @ ascii '' Error fetching URL: '' @ e), log_calls [EvHttpGet u] st))"
  using assms by (simp add: dispatch_app_def url_branch_app_def url_error_app_def)

lemma url_routing_api:
  assumes "truthy_file (uploaded_file req) = None" and "truthy_str (url_input req) = Some u"
  shows "(requests_get env u [] 10 = Inr html \<and> soup_get_text env html nl False = Inr t \<longrightarrow>
            dispatch_api env req st = (Inr (t, []), log_calls [EvHttpGet u, EvSoup html] st)) \<and>
         (requests_get env u [] 10 = Inl e \<longrightarrow>
            dispatch_api env req st =
              (Inr ([], ascii ''URL error: '' @ e), log_calls [EvHttpGet u] st))"
  using assms by (simp add: dispatch_api_def url_branch_api_def)

text \<open>
  Claim C2. Both handlers choose one channel by first match, for every behaviour of the
  outside world.
  With a file present: the answer and the state are those of the same request without its
  URL and text, and every outside call is one that the file's declared extension routes to
  (never a URL fetch). Once the upload is staged, the extension decides the extractor:
  \<^verbatim>\<open>.pdf\<close> runs the PDF extractor, \<^verbatim>\<open>.docx\<close> the DOCX extractor, an image extension the
  image extractor, \<^verbatim>\<open>.txt\<close> the UTF-8 read, each on the staged file, and the extractor's
  output is the extracted text; the calls are the staging, the extractor's own calls and
  the removal. An extension outside the six gives the unsupported-type message and runs no
  extractor.
  With no file and a non-empty URL: the answer is that of the same request without its
  text, the first call is the fetch of that URL and only URL calls and the summarization
  follow; the visible text of the fetched page is the extracted text, and a failed fetch
  gives the fetch error with no extracted text.
  With neither and a non-empty text: the text itself is the extracted text, with no error
  and no call, and only the summarization may follow.
\<close>

theorem first_match_dispatch:
  "(truthy_file (uploaded_file req) = Some f \<longrightarrow>
      process_app env req st = process_app env (req\<lparr>text_input := None, url_input := None\<rparr>) st \<and>
      process_api env req st' = process_api env (req\<lparr>text_input := None, url_input := None\<rparr>) st' \<and>
      list_all (\<lambda>ev. splitext_lower env (filename f) \<in> routed_for ev)
        (new_calls st (snd (process_app env req st))) \<and>
      list_all (\<lambda>ev. splitext_lower env (filename f) \<in> routed_for ev)
        (new_calls st' (snd (process_api env req st')))) \<and>
   (truthy_file (uploaded_file req) = Some f \<and> x = splitext_lower env (filename f) \<and>
    p = path_join (ascii ''Uploads'') (filename f) \<longrightarrow>
      (x \<notin> valid_extensions \<longrightarrow>
         dispatch_app env req lang st =
           (Inr ([], warn @ ascii '' Unsupported file type: '' @ x), st)) \<and>
      (makedirs env (ascii ''Uploads'') = Inr () \<and> save env p (content f) = Saved \<longrightarrow>
         (x = ascii ''.pdf'' \<longrightarrow>
            dispatch_app env req lang st =
              (Inr (fst (extract_pdf_text_app env p (content f) lang), []),
               staged_and_removed p (snd (extract_pdf_text_app env p (content f) lang)) st)) \<and>
         (x = ascii ''.docx'' \<longrightarrow>
            dispatch_app env req lang st =
              (Inr (fst (extract_docx_text_app env p (content f)), []),
               staged_and_removed p (snd (extract_docx_text_app env p (content f))) st)) \<and>
         (x \<in> image_extensions \<longrightarrow>
            dispatch_app env req lang st =
              (Inr (fst (extract_image_text_app env p (content f) lang), []),
               staged_and_removed p (snd (extract_image_text_app env p (content f) lang)) st)) \<and>
         (x = ascii ''.txt'' \<and> read_utf8 env (content f) = Inr t \<longrightarrow>
            dispatch_app env req lang st =
              (Inr (t, []), staged_and_removed p [EvReadText p] st)))) \<and>
   (truthy_file (uploaded_file req) = Some f \<and> x = splitext_lower env (filename f) \<and>
    named_temporary_file env x = Inr q \<and> save env q (content f) = Saved \<longrightarrow>
      (x = ascii ''.pdf'' \<longrightarrow>
         dispatch_api env req st' =
           (Inr (fst (extract_pdf_text_api env q (content f)), []),
            staged_and_removed q (snd (extract_pdf_text_api env q (content f))) st')) \<and>
      (x = ascii ''.docx'' \<longrightarrow>
         dispatch_api env req st' =
           (Inr (fst (extract_docx_text_api env q (content f)), []),
            staged_and_removed q (snd (extract_docx_text_api env q (content f))) st')) \<and>
      (x \<in> image_extensions \<longrightarrow>
         dispatch_api env req st' =
           (Inr (fst (extract_image_text_api env q (content f)), []),
            staged_and_removed q (snd (extract_image_text_api env q (content f))) st')) \<and>
      (x = ascii ''.txt'' \<and> read_utf8 env (content f) = Inr t \<longrightarrow>
         dispatch_api env req st' = (Inr (t, []), staged_and_removed q [EvReadText q] st')) \<and>
      (x \<notin> valid_extensions \<longrightarrow>
         dispatch_api env req st' =
           (Inr ([], ascii ''Unsupported file type''), staged_and_removed q [] st'))) \<and>
   (truthy_file (uploaded_file req) = None \<and> truthy_str (url_input req) = Some u \<longrightarrow>
      process_app env req st = process_app env (req\<lparr>text_input := None\<rparr>) st \<and>
      process_api env req st' = process_api env (req\<lparr>text_input := None\<rparr>) st' \<and>
      (\<exists>evs. new_calls st (snd (process_app env req st)) = EvHttpGet u # evs \<and>
             list_all (\<lambda>ev. url_call ev \<or> summarize_call ev) evs) \<and>
      (\<exists>evs. new_calls st' (snd (process_api env req st')) = EvHttpGet u # evs \<and>
             list_all (\<lambda>ev. url_call ev \<or> summarize_call ev) evs) \<and>
      (requests_get env u [(ascii ''User-Agent'', ascii ''GlobalTextSummarizerBot/1.0'')] 5
         = Inr html \<and> soup_get_text env html nl True = Inr t \<longrightarrow>
         dispatch_app env req lang st =
           (Inr (t, []), log_calls [EvHttpGet u, EvSoup html] st)) \<and>
      (requests_get env u [(ascii ''User-Agent'', ascii ''GlobalTextSummarizerBot/1.0'')] 5
         = Inl e \<longrightarrow>
         dispatch_app env req lang st =
           (Inr ([], warn @ ascii '' Error fetching URL: '' @ e), log_calls [EvHttpGet u] st)) \<and>
      (requests_get env u [] 10 = Inr html \<and> soup_get_text env html nl False = Inr t \<longrightarrow>
         dispatch_api env req st' = (Inr (t, []), log_calls [EvHttpGet u, EvSoup html] st')) \<and>
      (requests_get env u [] 10 = Inl e \<longrightarrow>
         dispatch_api env req st' =
           (Inr ([], ascii ''URL error: '' @ e), log_calls [EvHttpGet u] st'))) \<and>
   (truthy_file (uploaded_file req) = None \<and> truthy_str (url_input req) = None \<and>
    truthy_str (text_input req) = Some t \<longrightarrow>
      dispatch_app env req lang st = (Inr (t, []), st) \<and>
      dispatch_api env req st' = (Inr (t, []), st') \<and>
      list_all summarize_call (new_calls st (snd (process_app env req st))) \<and>
      list_all summarize_call (new_calls st' (snd (process_api env req st'))))"
proof (intro conjI)
  show "truthy_file (uploaded_file req) = Some f \<longrightarrow>
      process_app env req st = process_app env (req\<lparr>text_input := None, url_input := None\<rparr>) st \<and>
      process_api env req st' = process_api env (req\<lparr>text_input := None, url_input := None\<rparr>) st' \<and>
      list_all (\<lambda>ev. splitext_lower env (filename f) \<in> routed_for ev)
        (new_calls st (snd (process_app env req st))) \<and>
      list_all (\<lambda>ev. splitext_lower env (filename f) \<in> routed_for ev)
        (new_calls st' (snd (process_api env req st')))"
  proof (intro impI conjI)
    assume a: "truthy_file (uploaded_file req) = Some f"
    show "process_app env req st =
        process_app env (req\<lparr>text_input := None, url_input := None\<rparr>) st"
      using a by (simp add: process_app_def dispatch_app_def)
    show "process_api env req st' =
        process_api env (req\<lparr>text_input := None, url_input := None\<rparr>) st'"
      using a by (simp add: process_api_def dispatch_api_def)
    show "list_all (\<lambda>ev. splitext_lower env (filename f) \<in> routed_for ev)
        (new_calls st (snd (process_app env req st)))"
      using a by (rule file_request_calls_app)
    show "list_all (\<lambda>ev. splitext_lower env (filename f) \<in> routed_for ev)
        (new_calls st' (snd (process_api env req st')))"
      using a by (rule file_request_calls_api)
  qed
next
  show "truthy_file (uploaded_file req) = Some f \<and> x = splitext_lower env (filename f) \<and>
    p = path_join (ascii ''Uploads'') (filename f) \<longrightarrow>
      (x \<notin> valid_extensions \<longrightarrow>
         dispatch_app env req lang st =
           (Inr ([], warn @ ascii '' Unsupported file type: '' @ x), st)) \<and>
      (makedirs env (ascii ''Uploads'') = Inr () \<and> save env p (content f) = Saved \<longrightarrow>
         (x = ascii ''.pdf'' \<longrightarrow>
            dispatch_app env req lang st =
              (Inr (fst (extract_pdf_text_app env p (content f) lang), []),
               staged_and_removed p (snd (extract_pdf_text_app env p (content f) lang)) st)) \<and>
         (x = ascii ''.docx'' \<longrightarrow>
            dispatch_app env req lang st =
              (Inr (fst (extract_docx_text_app env p (content f)), []),
               staged_and_removed p (snd (extract_docx_text_app env p (content f))) st)) \<and>
         (x \<in> image_extensions \<longrightarrow>
            dispatch_app env req lang st =
              (Inr (fst (extract_image_text_app env p (content f) lang), []),
               staged_and_removed p (snd (extract_image_text_app env p (content f) lang)) st)) \<and>
         (x = ascii ''.txt'' \<and> read_utf8 env (content f) = Inr t \<longrightarrow>
            dispatch_app env req lang st =
              (Inr (t, []), staged_and_removed p [EvReadText p] st)))"
    using file_routing_app [of req f x env p lang st t] by blast
next
  show "truthy_file (uploaded_file req) = Some f \<and> x = splitext_lower env (filename f) \<and>
    named_temporary_file env x = Inr q \<and> save env q (content f) = Saved \<longrightarrow>
      (x = ascii ''.pdf'' \<longrightarrow>
         dispatch_api env req st' =
           (Inr (fst (extract_pdf_text_api env q (content f)), []),
            staged_and_removed q (snd (extract_pdf_text_api env q (content f))) st')) \<and>
      (x = ascii ''.docx'' \<longrightarrow>
         dispatch_api env req st' =
           (Inr (fst (extract_docx_text_api env q (content f)), []),
            staged_and_removed q (snd (extract_docx_text_api env q (content f))) st')) \<and>
      (x \<in> image_extensions \<longrightarrow>
         dispatch_api env req st' =
           (Inr (fst (extract_image_text_api env q (content f)), []),
            staged_and_removed q (snd (extract_image_text_api env q (content f))) st')) \<and>
      (x = ascii ''.txt'' \<and> read_utf8 env (content f) = Inr t \<longrightarrow>
         dispatch_api env req st' = (Inr (t, []), staged_and_removed q [EvReadText q] st')) \<and>
      (x \<notin> valid_extensions \<longrightarrow>
         dispatch_api env req st' =
           (Inr ([], ascii ''Unsupported file type''), staged_and_removed q [] st'))"
    using file_routing_api [of req f x env q st' t] by blast
next
  show "truthy_file (uploaded_file req) = None \<and> truthy_str (url_input req) = Some u \<longrightarrow>
      process_app env req st = process_app env (req\<lparr>text_input := None\<rparr>) st \<and>
      process_api env req st' = process_api env (req\<lparr>text_input := None\<rparr>) st' \<and>
      (\<exists>evs. new_calls st (snd (process_app env req st)) = EvHttpGet u # evs \<and>
             list_all (\<lambda>ev. url_call ev \<or> summarize_call ev) evs) \<and>
      (\<exists>evs. new_calls st' (snd (process_api env req st')) = EvHttpGet u # evs \<and>
             list_all (\<lambda>ev. url_call ev \<or> summarize_call ev) evs) \<and>
      (requests_get env u [(ascii ''User-Agent'', ascii ''GlobalTextSummarizerBot/1.0'')] 5
         = Inr html \<and> soup_get_text env html nl True = Inr t \<longrightarrow>
         dispatch_app env req lang st =
           (Inr (t, []), log_calls [EvHttpGet u, EvSoup html] st)) \<and>
      (requests_get env u [(ascii ''User-Agent'', ascii ''GlobalTextSummarizerBot/1.0'')] 5
         = Inl e \<longrightarrow>
         dispatch_app env req lang st =
           (Inr ([], warn @ ascii '' Error fetching URL: '' @ e), log_calls [EvHttpGet u] st)) \<and>
      (requests_get env u [] 10 = Inr html \<and> soup_get_text env html nl False = Inr t \<longrightarrow>
         dispatch_api env req st' = (Inr (t, []), log_calls [EvHttpGet u, EvSoup html] st')) \<and>
      (requests_get env u [] 10 = Inl e \<longrightarrow>
         dispatch_api env req st' =
           (Inr ([], ascii ''URL error: '' @ e), log_calls [EvHttpGet u] st'))"
  proof (intro impI)
    assume "truthy_file (uploaded_file req) = None \<and> truthy_str (url_input req) = Some u"
    then have a: "truthy_file (uploaded_file req) = None"
      and b: "truthy_str (url_input req) = Some u"
      by simp_all
    have 1: "process_app env req st = process_app env (req\<lparr>text_input := None\<rparr>) st"
      using a b by (simp add: process_app_def dispatch_app_def)
    have 2: "process_api env req st' = process_api env (req\<lparr>text_input := None\<rparr>) st'"
      using a b by (simp add: process_api_def dispatch_api_def)
    show "process_app env req st = process_app env (req\<lparr>text_input := None\<rparr>) st \<and>
      process_api env req st' = process_api env (req\<lparr>text_input := None\<rparr>) st' \<and>
      (\<exists>evs. new_calls st (snd (process_app env req st)) = EvHttpGet u # evs \<and>
             list_all (\<lambda>ev. url_call ev \<or> summarize_call ev) evs) \<and>
      (\<exists>evs. new_calls st' (snd (process_api env req st')) = EvHttpGet u # evs \<and>
             list_all (\<lambda>ev. url_call ev \<or> summarize_call ev) evs) \<and>
      (requests_get env u [(ascii ''User-Agent'', ascii ''GlobalTextSummarizerBot/1.0'')] 5
         = Inr html \<and> soup_get_text env html nl True = Inr t \<longrightarrow>
         dispatch_app env req lang st =
           (Inr (t, []), log_calls [EvHttpGet u, EvSoup html] st)) \<and>
      (requests_get env u [(ascii ''User-Agent'', ascii ''GlobalTextSummarizerBot/1.0'')] 5
         = Inl e \<longrightarrow>
         dispatch_app env req lang st =
           (Inr ([], warn @ ascii '' Error fetching URL: '' @ e), log_calls [EvHttpGet u] st)) \<and>
      (requests_get env u [] 10 = Inr html \<and> soup_get_text env html nl False = Inr t \<longrightarrow>
         dispatch_api env req st' = (Inr (t, []), log_calls [EvHttpGet u, EvSoup html] st')) \<and>
      (requests_get env u [] 10 = Inl e \<longrightarrow>
         dispatch_api env req st' =
           (Inr ([], ascii ''URL error: '' @ e), log_calls [EvHttpGet u] st'))"
      using 1 2 url_request_calls_app [OF a b, of st env] url_request_calls_api [OF a b, of st' env]
        url_routing_app [OF a b, of env html t lang st e]
        url_routing_api [OF a b, of env html t st' e]
      by blast
  qed
next
  show "truthy_file (uploaded_file req) = None \<and> truthy_str (url_input req) = None \<and>
    truthy_str (text_input req) = Some t \<longrightarrow>
      dispatch_app env req lang st = (Inr (t, []), st) \<and>
      dispatch_api env req st' = (Inr (t, []), st') \<and>
      list_all summarize_call (new_calls st (snd (process_app env req st))) \<and>
      list_all summarize_call (new_calls st' (snd (process_api env req st')))"
  proof (intro impI conjI)
    assume "truthy_file (uploaded_file req) = None \<and> truthy_str (url_input req) = None \<and>
      truthy_str (text_input req) = Some t"
    then have a: "truthy_file (uploaded_file req) = None"
      and b: "truthy_str (url_input req) = None"
      and c: "truthy_str (text_input req) = Some t"
      by simp_all
    show "dispatch_app env req lang st = (Inr (t, []), st)"
      using a b c by (simp add: dispatch_app_def)
    show "dispatch_api env req st' = (Inr (t, []), st')"
      using a b c by (simp add: dispatch_api_def)
    show "list_all summarize_call (new_calls st (snd (process_app env req st)))"
      using a b by (rule text_request_calls_app)
    show "list_all summarize_call (new_calls st' (snd (process_api env req st')))"
      using a b by (rule text_request_calls_api)
  qed
qed

theorem first_match_dispatch_witness:
  "process_app world_corrupt_pdf all_channels_request st0 =
     process_app world_corrupt_pdf (upload ''scan.pdf'' [37, 80, 68, 70]) st0 \<and>
   process_api world_corrupt_pdf all_channels_request st0 =
     process_api world_corrupt_pdf (upload ''scan.pdf'' [37, 80, 68, 70]) st0 \<and>
   list_all (\<lambda>ev. ascii ''.pdf'' \<in> routed_for ev)
     (new_calls st0 (snd (process_app world_corrupt_pdf all_channels_request st0))) \<and>
   list_all (\<lambda>ev. ascii ''.pdf'' \<in> routed_for ev)
     (new_calls st0 (snd (process_api world_corrupt_pdf all_channels_request st0))) \<and>
   dispatch_app world_corrupt_pdf all_channels_request (ascii ''eng'') (st0 :: app_record state) =
     (Inr (fst (extract_pdf_text_app world_corrupt_pdf (ascii ''Uploads/scan.pdf'')
                  [37, 80, 68, 70] (ascii ''eng'')), []),
      staged_and_removed (ascii ''Uploads/scan.pdf'')
        (snd (extract_pdf_text_app world_corrupt_pdf (ascii ''Uploads/scan.pdf'')
                [37, 80, 68, 70] (ascii ''eng''))) st0) \<and>
   dispatch_api world_corrupt_pdf all_channels_request (st0 :: api_record state) =
     (Inr (fst (extract_pdf_text_api world_corrupt_pdf (ascii ''/tmp/tmpupload.pdf'')
                  [37, 80, 68, 70]), []),
      staged_and_removed (ascii ''/tmp/tmpupload.pdf'')
        (snd (extract_pdf_text_api world_corrupt_pdf (ascii ''/tmp/tmpupload.pdf'')
                [37, 80, 68, 70])) st0) \<and>
   dispatch_app world (upload ''notes.txt'' [72, 105]) (ascii ''eng'') (st0 :: app_record state) =
     (Inr ([72, 105], []),
      staged_and_removed (ascii ''Uploads/notes.txt'') [EvReadText (ascii ''Uploads/notes.txt'')]
        st0) \<and>
   dispatch_app world (upload ''photo.png'' [137, 80, 78, 71]) (ascii ''eng'')
       (st0 :: app_record state) =
     (Inr (fst (extract_image_text_app world (ascii ''Uploads/photo.png'') [137, 80, 78, 71]
                  (ascii ''eng'')), []),
      staged_and_removed (ascii ''Uploads/photo.png'')
        (snd (extract_image_text_app world (ascii ''Uploads/photo.png'') [137, 80, 78, 71]
                (ascii ''eng''))) st0) \<and>
   process_app world url_and_text_request st0 =
     process_app world (empty_request\<lparr>url_input := Some (ascii ''http://example.com'')\<rparr>) st0 \<and>
   process_api world url_and_text_request st0 =
     process_api world (empty_request\<lparr>url_input := Some (ascii ''http://example.com'')\<rparr>) st0 \<and>
   (\<exists>evs. new_calls st0 (snd (process_app world url_and_text_request st0)) =
            EvHttpGet (ascii ''http://example.com'') # evs \<and>
          list_all (\<lambda>ev. url_call ev \<or> summarize_call ev) evs) \<and>
   (\<exists>evs. new_calls st0 (snd (process_api world url_and_text_request st0)) =
            EvHttpGet (ascii ''http://example.com'') # evs \<and>
          list_all (\<lambda>ev. url_call ev \<or> summarize_call ev) evs) \<and>
   dispatch_app world url_and_text_request (ascii ''eng'') (st0 :: app_record state) =
     (Inr ([], warn @ ascii '' Error fetching URL: '' @ ascii ''Connection refused''),
      log_calls [EvHttpGet (ascii ''http://example.com'')] st0) \<and>
   dispatch_api world url_and_text_request (st0 :: api_record state) =
     (Inr ([], ascii ''URL error: '' @ ascii ''Connection refused''),
      log_calls [EvHttpGet (ascii ''http://example.com'')] st0) \<and>
   dispatch_app world text_request (ascii ''eng'') (st0 :: app_record state) =
     (Inr (ascii ''Hello world'', []), st0) \<and>
   dispatch_api world text_request (st0 :: api_record state) =
     (Inr (ascii ''Hello world'', []), st0) \<and>
   list_all summarize_call (new_calls st0 (snd (process_app world text_request st0))) \<and>
   list_all summarize_call (new_calls st0 (snd (process_api world text_request st0)))"
proof -
  let ?f = "\<lparr>filename = ascii ''scan.pdf'', content = [37, 80, 68, 70]\<rparr>"
  let ?g = "\<lparr>filename = ascii ''notes.txt'', content = [72, 105]\<rparr>"
  let ?h = "\<lparr>filename = ascii ''photo.png'', content = [137, 80, 78, 71]\<rparr>"
  let ?u = "ascii ''http://example.com''"
  let ?t = "ascii ''Hello world''"
  have f: "truthy_file (uploaded_file all_channels_request) = Some ?f"
    by (simp add: all_channels_request_def upload_def truthy_file_def ascii_def)
  have e: "splitext_lower world_corrupt_pdf (filename ?f) = ascii ''.pdf''"
    by (simp add: world_corrupt_pdf_def world_def ext_of_def ascii_def)
  have e': "ascii ''.pdf'' = splitext_lower world_corrupt_pdf (filename ?f)"
    using e by simp
  have pf: "ascii ''Uploads/scan.pdf'' = path_join (ascii ''Uploads'') (filename ?f)"
    by (simp add: path_join_def startswith_def ascii_def)
  have stage_f: "makedirs world_corrupt_pdf (ascii ''Uploads'') = Inr () \<and>
      save world_corrupt_pdf (ascii ''Uploads/scan.pdf'') (content ?f) = Saved"
    by (simp add: world_corrupt_pdf_def world_def)
  have tmp_f: "named_temporary_file world_corrupt_pdf (ascii ''.pdf'') =
        Inr (ascii ''/tmp/tmpupload.pdf'') \<and>
      save world_corrupt_pdf (ascii ''/tmp/tmpupload.pdf'') (content ?f) = Saved"
    by (simp add: world_corrupt_pdf_def world_def ascii_def)
  have r: "all_channels_request\<lparr>text_input := None, url_input := None\<rparr> =
      upload ''scan.pdf'' [37, 80, 68, 70]"
    by (simp add: all_channels_request_def upload_def empty_request_def)
  have g: "truthy_file (uploaded_file (upload ''notes.txt'' [72, 105])) = Some ?g"
    by (simp add: upload_def truthy_file_def ascii_def)
  have eg: "ascii ''.txt'' = splitext_lower world (filename ?g)"
    by (simp add: world_def ext_of_def ascii_def)
  have pg: "ascii ''Uploads/notes.txt'' = path_join (ascii ''Uploads'') (filename ?g)"
    by (simp add: path_join_def startswith_def ascii_def)
  have stage_g: "makedirs world (ascii ''Uploads'') = Inr () \<and>
      save world (ascii ''Uploads/notes.txt'') (content ?g) = Saved"
    by (simp add: world_def)
  have read_g: "read_utf8 world (content ?g) = Inr [72, 105]"
    by (simp add: world_def)
  have h: "truthy_file (uploaded_file (upload ''photo.png'' [137, 80, 78, 71])) = Some ?h"
    by (simp add: upload_def truthy_file_def ascii_def)
  have eh: "ascii ''.png'' = splitext_lower world (filename ?h)"
    by (simp add: world_def ext_of_def ascii_def)
  have ph: "ascii ''Uploads/photo.png'' = path_join (ascii ''Uploads'') (filename ?h)"
    by (simp add: path_join_def startswith_def ascii_def)
  have stage_h: "makedirs world (ascii ''Uploads'') = Inr () \<and>
      save world (ascii ''Uploads/photo.png'') (content ?h) = Saved"
    by (simp add: world_def)
  have png: "ascii ''.png'' \<in> image_extensions"
    by (simp add: image_extensions_def)
  have u: "truthy_file (uploaded_file url_and_text_request) = None \<and>
      truthy_str (url_input url_and_text_request) = Some ?u"
    by (simp add: url_and_text_request_def empty_request_def truthy_file_def truthy_str_def
        ascii_def)
  have r': "url_and_text_request\<lparr>text_input := None\<rparr> = empty_request\<lparr>url_input := Some ?u\<rparr>"
    by (simp add: url_and_text_request_def empty_request_def)
  have down: "requests_get world ?u hs n = Inl (ascii ''Connection refused'')" for hs n
    by (simp add: world_def)
  have t: "truthy_file (uploaded_file text_request) = None \<and>
      truthy_str (url_input text_request) = None \<and>
      truthy_str (text_input text_request) = Some ?t"
    by (simp add: text_request_def empty_request_def truthy_file_def truthy_str_def ascii_def)
  note pdf = first_match_dispatch [where req = all_channels_request and f = ?f
      and env = world_corrupt_pdf and st = st0 and st' = st0 and x = "ascii ''.pdf''"
      and p = "ascii ''Uploads/scan.pdf''" and q = "ascii ''/tmp/tmpupload.pdf''"
      and lang = "ascii ''eng''"]
  note pdf_any = pdf [THEN conjunct1, THEN mp, OF f]
  note pdf_app = pdf [THEN conjunct2, THEN conjunct1, THEN mp, OF conjI [OF f conjI [OF e' pf]],
      THEN conjunct2, THEN mp, OF stage_f, THEN conjunct1, THEN mp, OF refl]
  note pdf_api = pdf [THEN conjunct2, THEN conjunct2, THEN conjunct1, THEN mp,
      OF conjI [OF f conjI [OF e' tmp_f]], THEN conjunct1, THEN mp, OF refl]
  note plain = first_match_dispatch [where req = "upload ''notes.txt'' [72, 105]" and f = ?g
      and env = world and st = st0 and x = "ascii ''.txt''"
      and p = "ascii ''Uploads/notes.txt''" and lang = "ascii ''eng''" and t = "[72, 105]",
      THEN conjunct2, THEN conjunct1, THEN mp, OF conjI [OF g conjI [OF eg pg]],
      THEN conjunct2, THEN mp, OF stage_g, THEN conjunct2, THEN conjunct2, THEN conjunct2,
      THEN mp, OF conjI [OF refl read_g]]
  note img = first_match_dispatch [where req = "upload ''photo.png'' [137, 80, 78, 71]"
      and f = ?h and env = world and st = st0 and x = "ascii ''.png''"
      and p = "ascii ''Uploads/photo.png''" and lang = "ascii ''eng''",
      THEN conjunct2, THEN conjunct1, THEN mp, OF conjI [OF h conjI [OF eh ph]],
      THEN conjunct2, THEN mp, OF stage_h, THEN conjunct2, THEN conjunct2, THEN conjunct1,
      THEN mp, OF png]
  note url = first_match_dispatch [where req = url_and_text_request and env = world
      and st = st0 and st' = st0 and u = ?u and lang = "ascii ''eng''"
      and e = "ascii ''Connection refused''",
      THEN conjunct2, THEN conjunct2, THEN conjunct2, THEN conjunct1, THEN mp, OF u]
  note txt_only = first_match_dispatch [where req = text_request and env = world
      and st = st0 and st' = st0 and t = ?t and lang = "ascii ''eng''",
      THEN conjunct2, THEN conjunct2, THEN conjunct2, THEN conjunct2, THEN mp, OF t]
  have 1: "process_app world_corrupt_pdf all_channels_request st0 =
        process_app world_corrupt_pdf (upload ''scan.pdf'' [37, 80, 68, 70]) st0 \<and>
      process_api world_corrupt_pdf all_channels_request st0 =
        process_api world_corrupt_pdf (upload ''scan.pdf'' [37, 80, 68, 70]) st0 \<and>
      list_all (\<lambda>ev. ascii ''.pdf'' \<in> routed_for ev)
        (new_calls st0 (snd (process_app world_corrupt_pdf all_channels_request st0))) \<and>
      list_all (\<lambda>ev. ascii ''.pdf'' \<in> routed_for ev)
        (new_calls st0 (snd (process_api world_corrupt_pdf all_channels_request st0)))"
    using pdf_any unfolding e r .
  have 2: "dispatch_app world_corrupt_pdf all_channels_request (ascii ''eng'')
        (st0 :: app_record state) =
      (Inr (fst (extract_pdf_text_app world_corrupt_pdf (ascii ''Uploads/scan.pdf'')
                   [37, 80, 68, 70] (ascii ''eng'')), []),
       staged_and_removed (ascii ''Uploads/scan.pdf'')
         (snd (extract_pdf_text_app world_corrupt_pdf (ascii ''Uploads/scan.pdf'')
                 [37, 80, 68, 70] (ascii ''eng''))) st0)"
    using pdf_app by simp
  have 3: "dispatch_api world_corrupt_pdf all_channels_request (st0 :: api_record state) =
      (Inr (fst (extract_pdf_text_api world_corrupt_pdf (ascii ''/tmp/tmpupload.pdf'')
                   [37, 80, 68, 70]), []),
       staged_and_removed (ascii ''/tmp/tmpupload.pdf'')
         (snd (extract_pdf_text_api world_corrupt_pdf (ascii ''/tmp/tmpupload.pdf'')
                 [37, 80, 68, 70])) st0)"
    using pdf_api by simp
  have 4: "dispatch_app world (upload ''notes.txt'' [72, 105]) (ascii ''eng'')
        (st0 :: app_record state) =
      (Inr ([72, 105], []),
       staged_and_removed (ascii ''Uploads/notes.txt'')
         [EvReadText (ascii ''Uploads/notes.txt'')] st0)"
    using plain by simp
  have 5: "dispatch_app world (upload ''photo.png'' [137, 80, 78, 71]) (ascii ''eng'')
        (st0 :: app_record state) =
      (Inr (fst (extract_image_text_app world (ascii ''Uploads/photo.png'') [137, 80, 78, 71]
                   (ascii ''eng'')), []),
       staged_and_removed (ascii ''Uploads/photo.png'')
         (snd (extract_image_text_app world (ascii ''Uploads/photo.png'') [137, 80, 78, 71]
                 (ascii ''eng''))) st0)"
    using img by simp
  have 6: "process_app world url_and_text_request st0 =
        process_app world (empty_request\<lparr>url_input := Some ?u\<rparr>) st0 \<and>
      process_api world url_and_text_request st0 =
        process_api world (empty_request\<lparr>url_input := Some ?u\<rparr>) st0 \<and>
      (\<exists>evs. new_calls st0 (snd (process_app world url_and_text_request st0)) =
               EvHttpGet ?u # evs \<and>
             list_all (\<lambda>ev. url_call ev \<or> summarize_call ev) evs) \<and>
      (\<exists>evs. new_calls st0 (snd (process_api world url_and_text_request st0)) =
               EvHttpGet ?u # evs \<and>
             list_all (\<lambda>ev. url_call ev \<or> summarize_call ev) evs) \<and>
      dispatch_app world url_and_text_request (ascii ''eng'') (st0 :: app_record state) =
        (Inr ([], warn @ ascii '' Error fetching URL: '' @ ascii ''Connection refused''),
         log_calls [EvHttpGet ?u] st0) \<and>
      dispatch_api world url_and_text_request (st0 :: api_record state) =
        (Inr ([], ascii ''URL error: '' @ ascii ''Connection refused''),
         log_calls [EvHttpGet ?u] st0)"
    using url down unfolding r' by blast
  have 7: "dispatch_app world text_request (ascii ''eng'') (st0 :: app_record state) =
        (Inr (?t, []), st0) \<and>
      dispatch_api world text_request (st0 :: api_record state) = (Inr (?t, []), st0) \<and>
      list_all summarize_call (new_calls st0 (snd (process_app world text_request st0))) \<and>
      list_all summarize_call (new_calls st0 (snd (process_api world text_request st0)))"
    using txt_only by simp
  show ?thesis by (intro conjI 1 [THEN conjunct1] 1 [THEN conjunct2, THEN conjunct1]
      1 [THEN conjunct2, THEN conjunct2, THEN conjunct1]
      1 [THEN conjunct2, THEN conjunct2, THEN conjunct2] 2 3 4 5
      6 [THEN conjunct1] 6 [THEN conjunct2, THEN conjunct1]
      6 [THEN conjunct2, THEN conjunct2, THEN conjunct1]
      6 [THEN conjunct2, THEN conjunct2, THEN conjunct2, THEN conjunct1]
      6 [THEN conjunct2, THEN conjunct2, THEN conjunct2, THEN conjunct2, THEN conjunct1]
      6 [THEN conjunct2, THEN conjunct2, THEN conjunct2, THEN conjunct2, THEN conjunct2]
      7 [THEN conjunct1] 7 [THEN conjunct2, THEN conjunct1]
      7 [THEN conjunct2, THEN conjunct2, THEN conjunct1]
      7 [THEN conjunct2, THEN conjunct2, THEN conjunct2])
qed

section \<open>The handlers run in the concrete worlds\<close>

lemma world_ext:
  "splitext_lower world (ascii ''scan.pdf'') = ascii ''.pdf''"
  "splitext_lower world (ascii ''photo.png'') = ascii ''.png''"
  "splitext_lower world (ascii ''notes.txt'') = ascii ''.txt''"
  by (simp_all add: world_def ext_of_def ascii_def)

lemma ext_facts:
  "ascii ''.png'' \<noteq> ascii ''.pdf''" "ascii ''.png'' \<noteq> ascii ''.docx''"
  "ascii ''.png'' \<noteq> ascii ''.txt''" "ascii ''.png'' \<in> image_extensions"
  "ascii ''.png'' \<in> valid_extensions" "ascii ''.pdf'' \<in> valid_extensions"
  "ascii ''.txt'' \<in> valid_extensions" "ascii ''.txt'' \<noteq> ascii ''.pdf''"
  "ascii ''.txt'' \<noteq> ascii ''.docx''" "ascii ''.txt'' \<notin> image_extensions"
  by (simp_all add: ascii_def image_extensions_def valid_extensions_def)

lemma world_tmp:
  "named_temporary_file world (ascii ''.pdf'') = Inr (ascii ''/tmp/tmpupload.pdf'')"
  "named_temporary_file world (ascii ''.png'') = Inr (ascii ''/tmp/tmpupload.png'')"
  by (simp_all add: world_def ascii_def)

lemma world_staging:
  "makedirs world d = Inr ()" "save world p b = Saved"
  "makedirs world_silent_ocr d = Inr ()" "save world_silent_ocr p b = Saved"
  "makedirs world_corrupt_pdf d = Inr ()" "save world_corrupt_pdf p b = Saved"
  by (simp_all add: world_def world_silent_ocr_def world_corrupt_pdf_def)

lemma upload_file:
  "truthy_file (uploaded_file (upload name b)) =
     (if name = [] then None else Some \<lparr>filename = ascii name, content = b\<rparr>)"
  "truthy_file (uploaded_file ((upload name b)\<lparr>input_lang := x\<rparr>)) =
     (if name = [] then None else Some \<lparr>filename = ascii name, content = b\<rparr>)"
  by (simp_all add: upload_def truthy_file_def ascii_def)

lemma upload_fields:
  "output_lang (upload name b) = None" "summary_length (upload name b) = None"
  "input_lang (upload name b) = None" "summary_format (upload name b) = None"
  by (simp_all add: upload_def empty_request_def)

lemma word_limit_medium: "word_limit_of (ascii ''Medium'') = 200"
  by (simp add: word_limit_of_def length_map_def ascii_def)

lemma blank_pdf_api_silent:
  "extract_pdf_text_api world_silent_ocr p b = ([], [EvPdfText p, EvPdfRender p 1 1, EvOcr b None []])"
  by (simp add: extract_pdf_text_api_def world_silent_ocr_def world_def strip_def)

lemma blank_pdf_api_formfeed:
  "extract_pdf_text_api world p b = ([0xC], [EvPdfText p, EvPdfRender p 1 1, EvOcr b None []])"
  by (simp add: extract_pdf_text_api_def world_def strip_def)

lemma silent_fields:
  "splitext_lower world_silent_ocr = splitext_lower world"
  "named_temporary_file world_silent_ocr = named_temporary_file world"
  "generate_text world_silent_ocr = generate_text world"
  "now_isoformat world_silent_ocr = now_isoformat world"
  by (simp_all add: world_silent_ocr_def)

lemma world_generate: "generate_text world m p l = Inr (ascii ''A summary.'')"
  "now_isoformat world = ascii ''2024-01-01T00:00:00''"
  by (simp_all add: world_def)

lemma dispatch_blank_pdf_api_silent:
  "dispatch_api world_silent_ocr (upload ''scan.pdf'' b) st0 =
     (Inr ([], []),
      \<lparr>files = {}, summaries_history = [],
       calls = [EvSave (ascii ''/tmp/tmpupload.pdf''), EvPdfText (ascii ''/tmp/tmpupload.pdf''),
                EvPdfRender (ascii ''/tmp/tmpupload.pdf'') 1 1, EvOcr b None [],
                EvRemove (ascii ''/tmp/tmpupload.pdf'')]\<rparr>)"
  by (simp add: dispatch_api_def upload_file file_branch_api_def Let_def silent_fields world_ext
      world_tmp extract_by_suffix_api_def blank_pdf_api_silent world_staging save_upload_def save_file_def log_calls_def
      os_remove_def st0_def)

lemma dispatch_blank_pdf_api_formfeed:
  "dispatch_api world (upload ''scan.pdf'' b) st0 =
     (Inr ([0xC], []),
      \<lparr>files = {}, summaries_history = [],
       calls = [EvSave (ascii ''/tmp/tmpupload.pdf''), EvPdfText (ascii ''/tmp/tmpupload.pdf''),
                EvPdfRender (ascii ''/tmp/tmpupload.pdf'') 1 1, EvOcr b None [],
                EvRemove (ascii ''/tmp/tmpupload.pdf'')]\<rparr>)"
  by (simp add: dispatch_api_def upload_file file_branch_api_def Let_def world_ext
      world_tmp extract_by_suffix_api_def blank_pdf_api_formfeed world_staging save_upload_def save_file_def log_calls_def
      os_remove_def st0_def)

text \<open>
  Claim C1, at the input where \<^verbatim>\<open>api/index.py\<close> departs from it. A scanned PDF with
  no text layer whose first page is blank: the text layer is tried first and the first
  page alone is rendered and read, but the extractor returns the OCR output as it is. When
  that output is empty the response has an empty summary and an empty error; when it is a
  form feed the blank text is summarized and recorded. No failure is reported.
\<close>

theorem blank_pdf_api_no_failure:
  "extract_pdf_text_api world_silent_ocr (ascii ''/tmp/tmpupload.pdf'') [37, 80, 68, 70] =
     ([], [EvPdfText (ascii ''/tmp/tmpupload.pdf''),
           EvPdfRender (ascii ''/tmp/tmpupload.pdf'') 1 1,
           EvOcr [37, 80, 68, 70] None []]) \<and>
   fst (process_api world_silent_ocr (upload ''scan.pdf'' [37, 80, 68, 70]) st0) =
     Response [] [] [] \<and>
   fst (process_api world (upload ''scan.pdf'' [37, 80, 68, 70]) st0) =
     Response (ascii ''A summary.'') []
       [\<lparr>time = ascii ''2024-01-01T00:00:00'', summary_h = ascii ''A summary.''\<rparr>]"
proof -
  have 1: "fst (process_api world_silent_ocr (upload ''scan.pdf'' [37, 80, 68, 70]) st0) =
     Response [] [] []"
    by (simp add: process_api_def Let_def dispatch_blank_pdf_api_silent summarize_api_def)
  have 2: "fst (process_api world (upload ''scan.pdf'' [37, 80, 68, 70]) st0) =
     Response (ascii ''A summary.'') []
       [\<lparr>time = ascii ''2024-01-01T00:00:00'', summary_h = ascii ''A summary.''\<rparr>]"
    by (simp add: process_api_def Let_def dispatch_blank_pdf_api_formfeed summarize_api_def
        world_generate log_calls_def history_append_api_def)
  show ?thesis using 1 2 by (simp add: blank_pdf_api_silent)
qed

lemma corrupt_fields:
  "splitext_lower world_corrupt_pdf = splitext_lower world"
  "named_temporary_file world_corrupt_pdf = named_temporary_file world"
  "generate_text world_corrupt_pdf = generate_text world"
  "now_isoformat world_corrupt_pdf = now_isoformat world"
  "extract_text world_corrupt_pdf b = Inl (ascii ''No /Root object!'')"
  by (simp_all add: world_corrupt_pdf_def)

lemma uploads_path:
  "path_join (ascii ''Uploads'') (ascii ''photo.png'') = ascii ''Uploads/photo.png''"
  "path_join (ascii ''Uploads'') (ascii ''scan.pdf'') = ascii ''Uploads/scan.pdf''"
  "path_join (ascii ''Uploads'') (ascii ''notes.txt'') = ascii ''Uploads/notes.txt''"
  by (simp_all add: path_join_def startswith_def ascii_def)

lemma blank_image_app:
  "extract_image_text_app world p b lang =
     (no_ocr_text, [EvImageOpen p, EvThumbnail b, EvOcr b (Some lang) (ascii ''--psm 6'')])"
  by (simp add: extract_image_text_app_def world_def strip_def isspace_def)

lemma corrupt_pdf_app:
  "extract_pdf_text_app world_corrupt_pdf p b lang =
     (pdf_error_app (ascii ''No /Root object!''), [EvPdfText p])"
  by (simp add: extract_pdf_text_app_def corrupt_fields)

lemma sentinel_guard:
  "startswith no_ocr_text warn" "startswith (pdf_error_app e) warn"
  by (simp_all add: no_ocr_text_def pdf_error_app_def startswith_def)

lemma dispatch_blank_image_app:
  "dispatch_app world (upload ''photo.png'' b) lang st0 =
     (Inr (no_ocr_text, []),
      \<lparr>files = {}, summaries_history = [],
       calls = [EvSave (ascii ''Uploads/photo.png''), EvImageOpen (ascii ''Uploads/photo.png''),
                EvThumbnail b, EvOcr b (Some lang) (ascii ''--psm 6''),
                EvRemove (ascii ''Uploads/photo.png'')]\<rparr>)"
  by (simp add: dispatch_app_def upload_file file_branch_app_def Let_def world_ext ext_facts
      uploads_path extract_by_ext_app_def blank_image_app world_staging save_upload_def save_file_def log_calls_def
      os_remove_def st0_def)

lemma dispatch_corrupt_pdf_app:
  "dispatch_app world_corrupt_pdf (upload ''scan.pdf'' b) lang st0 =
     (Inr (pdf_error_app (ascii ''No /Root object!''), []),
      \<lparr>files = {}, summaries_history = [],
       calls = [EvSave (ascii ''Uploads/scan.pdf''), EvPdfText (ascii ''Uploads/scan.pdf''),
                EvRemove (ascii ''Uploads/scan.pdf'')]\<rparr>)"
  by (simp add: dispatch_app_def upload_file file_branch_app_def Let_def corrupt_fields world_ext
      ext_facts uploads_path extract_by_ext_app_def corrupt_pdf_app world_staging save_upload_def save_file_def log_calls_def
      os_remove_def st0_def)

text \<open>
  Claim C4, at inputs where \<^verbatim>\<open>app.py\<close> departs from it. An image on which the OCR
  engine finds nothing, and a PDF that the PDF library rejects: the extractor returns its
  message behind the sentinel prefix, and the handler answers with an empty summary and an
  empty error message.
\<close>

theorem extraction_failure_unreported_app:
  "extract_image_text_app world (ascii ''Uploads/photo.png'') [137, 80, 78, 71] (ascii ''eng'') =
     (no_ocr_text,
      [EvImageOpen (ascii ''Uploads/photo.png''), EvThumbnail [137, 80, 78, 71],
       EvOcr [137, 80, 78, 71] (Some (ascii ''eng'')) (ascii ''--psm 6'')]) \<and>
   fst (process_app world (upload ''photo.png'' [137, 80, 78, 71]) st0) = Response [] [] [] \<and>
   extract_pdf_text_app world_corrupt_pdf (ascii ''Uploads/scan.pdf'') [37, 80, 68, 70]
       (ascii ''eng'') =
     (pdf_error_app (ascii ''No /Root object!''), [EvPdfText (ascii ''Uploads/scan.pdf'')]) \<and>
   fst (process_app world_corrupt_pdf (upload ''scan.pdf'' [37, 80, 68, 70]) st0) =
     Response [] [] []"
proof -
  have 1: "fst (process_app world (upload ''photo.png'' [137, 80, 78, 71]) st0) =
      Response [] [] []"
    by (simp add: process_app_def Let_def dispatch_blank_image_app summarize_app_def
        sentinel_guard)
  have 2: "fst (process_app world_corrupt_pdf (upload ''scan.pdf'' [37, 80, 68, 70]) st0) =
      Response [] [] []"
    by (simp add: process_app_def Let_def dispatch_corrupt_pdf_app summarize_app_def
        sentinel_guard)
  show ?thesis using 1 2 by (simp add: blank_image_app corrupt_pdf_app)
qed

lemma ascii_Nil_iff: "ascii s = [] \<longleftrightarrow> s = []"
  by (simp add: ascii_def)

lemma corrupt_pdf_api:
  "extract_pdf_text_api world_corrupt_pdf p b = (pdf_error_api (ascii ''No /Root object!''), [EvPdfText p])"
  by (simp add: extract_pdf_text_api_def corrupt_fields)

text \<open>
  Claim C6, at the input where \<^verbatim>\<open>app.py\<close> departs from it. A request with no file,
  no URL and no text is answered with an empty summary and an empty error message.
\<close>

theorem no_input_unreported_app:
  "process_app world empty_request st0 = (Response [] [] [], st0)"
  by (simp add: process_app_def Let_def dispatch_app_def empty_request_def truthy_file_def
      truthy_str_def summarize_app_def strip_def st0_def)

lemma world_read_bad: "read_utf8 world [0xFF] = Inl (ascii ''invalid start byte'')"
  by (simp add: world_def)

text \<open>
  Claim C7, at the input where \<^verbatim>\<open>app.py\<close> departs from it. A \<^verbatim>\<open>.txt\<close> upload that
  is not valid UTF-8: reading the staged file raises, the exception leaves the handler, and
  the staged file is still on disk.
\<close>

theorem staged_file_left_behind_app:
  "process_app world (upload ''notes.txt'' [0xFF]) st0 =
     (Fault (ascii ''invalid start byte''),
      \<lparr>files = {ascii ''Uploads/notes.txt''}, summaries_history = [],
       calls = [EvSave (ascii ''Uploads/notes.txt''), EvReadText (ascii ''Uploads/notes.txt'')]\<rparr>)"
  by (simp add: process_app_def Let_def dispatch_app_def upload_file file_branch_app_def world_ext
      ext_facts uploads_path extract_by_ext_app_def world_read_bad world_staging save_upload_def save_file_def log_calls_def
      st0_def)

lemma blank_image_api:
  "extract_image_text_api world p b = ([0xC], [EvImageOpen p, EvOcr b None []])"
  "extract_image_text_api world_silent_ocr p b = ([], [EvImageOpen p, EvOcr b None []])"
  by (simp_all add: extract_image_text_api_def world_def world_silent_ocr_def)

lemma dispatch_blank_image_api:
  "dispatch_api world ((upload ''photo.png'' b)\<lparr>input_lang := x\<rparr>) st0 =
     (Inr ([0xC], []),
      \<lparr>files = {}, summaries_history = [],
       calls = [EvSave (ascii ''/tmp/tmpupload.png''), EvImageOpen (ascii ''/tmp/tmpupload.png''),
                EvOcr b None [], EvRemove (ascii ''/tmp/tmpupload.png'')]\<rparr>)"
  by (simp add: dispatch_api_def upload_file file_branch_api_def Let_def world_ext ext_facts
      world_tmp extract_by_suffix_api_def blank_image_api world_staging save_upload_def save_file_def log_calls_def
      os_remove_def st0_def)

lemma dispatch_blank_image_api_silent:
  "dispatch_api world_silent_ocr (upload ''photo.png'' b) st0 =
     (Inr ([], []),
      \<lparr>files = {}, summaries_history = [],
       calls = [EvSave (ascii ''/tmp/tmpupload.png''), EvImageOpen (ascii ''/tmp/tmpupload.png''),
                EvOcr b None [], EvRemove (ascii ''/tmp/tmpupload.png'')]\<rparr>)"
  by (simp add: dispatch_api_def upload_file file_branch_api_def Let_def silent_fields world_ext
      ext_facts world_tmp extract_by_suffix_api_def blank_image_api world_staging save_upload_def save_file_def log_calls_def
      os_remove_def st0_def)

text \<open>
  Claim C9, at the input where \<^verbatim>\<open>api/index.py\<close> departs from it. An image on which
  the OCR engine finds nothing, sent with the input language Hindi: the engine is called
  with no language, and its blank output is summarized and recorded (form feed) or
  answered with an empty summary and an empty error (empty string). No failure is
  reported.
\<close>

theorem image_ocr_api_no_language_no_failure:
  "process_api world
       ((upload ''photo.png'' [137, 80, 78, 71])\<lparr>input_lang := Some (ascii ''Hindi'')\<rparr>) st0 =
     (Response (ascii ''A summary.'') []
        [\<lparr>time = ascii ''2024-01-01T00:00:00'', summary_h = ascii ''A summary.''\<rparr>],
      \<lparr>files = {},
       summaries_history =
         [\<lparr>time = ascii ''2024-01-01T00:00:00'', summary_h = ascii ''A summary.''\<rparr>],
       calls =
         [EvSave (ascii ''/tmp/tmpupload.png''), EvImageOpen (ascii ''/tmp/tmpupload.png''),
          EvOcr [137, 80, 78, 71] None [], EvRemove (ascii ''/tmp/tmpupload.png''),
          EvSummarize (prompt_api (ascii ''English'') 200 [0xC])]\<rparr>) \<and>
   fst (process_api world_silent_ocr (upload ''photo.png'' [137, 80, 78, 71]) st0) =
     Response [] [] []"
proof -
  have 1: "process_api world
       ((upload ''photo.png'' [137, 80, 78, 71])\<lparr>input_lang := Some (ascii ''Hindi'')\<rparr>) st0 =
     (Response (ascii ''A summary.'') []
        [\<lparr>time = ascii ''2024-01-01T00:00:00'', summary_h = ascii ''A summary.''\<rparr>],
      \<lparr>files = {},
       summaries_history =
         [\<lparr>time = ascii ''2024-01-01T00:00:00'', summary_h = ascii ''A summary.''\<rparr>],
       calls =
         [EvSave (ascii ''/tmp/tmpupload.png''), EvImageOpen (ascii ''/tmp/tmpupload.png''),
          EvOcr [137, 80, 78, 71] None [], EvRemove (ascii ''/tmp/tmpupload.png''),
          EvSummarize (prompt_api (ascii ''English'') 200 [0xC])]\<rparr>)"
    by (simp add: process_api_def Let_def dispatch_blank_image_api summarize_api_def upload_fields
        get_default_def word_limit_medium world_generate log_calls_def history_append_api_def)
  have 2: "fst (process_api world_silent_ocr (upload ''photo.png'' [137, 80, 78, 71]) st0) =
     Response [] [] []"
    by (simp add: process_api_def Let_def dispatch_blank_image_api_silent summarize_api_def)
  show ?thesis using 1 2 by simp
qed

section \<open>What the other variant does at those inputs\<close>

text \<open>
  \<^verbatim>\<open>app.py\<close>: the PDF extractor tries the text layer first, renders only page 1, and
  only when the text layer is blank; neither it nor the image extractor ever returns blank
  text, and the image extractor passes the request's language to the OCR engine.
\<close>

lemma strip_warn_append: "strip (warn @ x) \<noteq> []"
  by (rule startswith_warn_nonblank) (rule startswith_warn_append)

lemma ocr_pages_app_only_ocr:
  "list_all (\<lambda>ev. \<exists>i c. ev = EvOcr i (Some lang) c) (snd (ocr_pages_app env lang imgs acc))"
  by (induction imgs arbitrary: acc) (simp_all add: case_prod_beta split: sum.splits)

lemma extract_pdf_text_app_never_blank:
  "strip (fst (extract_pdf_text_app env p b lang)) \<noteq> []"
  by (simp add: extract_pdf_text_app_def pdf_error_app_def no_readable_text_def strip_warn_append
      split: sum.splits prod.splits)

lemma extract_pdf_text_app_first_call:
  "\<exists>evs. snd (extract_pdf_text_app env p b lang) = EvPdfText p # evs"
  by (simp add: extract_pdf_text_app_def split: sum.splits prod.splits)

lemma extract_pdf_text_app_render_iff:
  "(\<exists>m n. EvPdfRender p m n \<in> set (snd (extract_pdf_text_app env p b lang))) \<longleftrightarrow>
   (\<exists>t. extract_text env b = Inr t \<and> strip t = [])"
proof -
  have "EvPdfRender p m n \<notin> set (snd (ocr_pages_app env lang imgs []))" for m n imgs
    using ocr_pages_app_only_ocr [of lang env imgs "[]"] by (auto simp: list_all_iff)
  then show ?thesis
    by (auto simp: extract_pdf_text_app_def split: sum.splits prod.splits dest: sndI)
qed

lemma extract_pdf_text_app_first_page_only:
  "EvPdfRender q m n \<in> set (snd (extract_pdf_text_app env p b lang)) \<Longrightarrow>
   m = 1 \<and> n = 1"
proof -
  have "EvPdfRender q m n \<notin> set (snd (ocr_pages_app env lang imgs []))" for imgs
    using ocr_pages_app_only_ocr [of lang env imgs "[]"] by (auto simp: list_all_iff)
  then show "EvPdfRender q m n \<in> set (snd (extract_pdf_text_app env p b lang)) \<Longrightarrow>
      m = 1 \<and> n = 1"
    by (auto simp: extract_pdf_text_app_def split: sum.splits prod.splits if_splits dest: sndI)
qed

lemma extract_pdf_text_app_both_blank:
  assumes "extract_text env b = Inr t" and "strip t = []"
    and "convert_from_path env b 1 1 = Inr imgs"
    and "fst (ocr_pages_app env lang imgs []) = Inr ocr_text" and "strip ocr_text = []"
  shows "fst (extract_pdf_text_app env p b lang) = no_readable_text"
  using assms by (auto simp: extract_pdf_text_app_def split: prod.splits)

lemma extract_image_text_app_never_blank:
  "strip (fst (extract_image_text_app env p b lang)) \<noteq> []"
  by (simp add: extract_image_text_app_def ocr_error_app_def no_ocr_text_def strip_warn_append
      split: sum.splits)

lemma extract_image_text_app_language:
  "EvOcr i l c \<in> set (snd (extract_image_text_app env p b lang)) \<Longrightarrow> l = Some lang"
  by (auto simp: extract_image_text_app_def split: sum.splits)

lemma extract_image_text_app_blank:
  assumes "image_open env b = Inr img0" and "thumbnail env img0 (1000, 1000) = Inr img"
    and "image_to_string env img (Some lang) (ascii ''--psm 6'') = Inr t" and "strip t = []"
  shows "fst (extract_image_text_app env p b lang) = no_ocr_text"
  using assms by (simp add: extract_image_text_app_def)

text \<open>\<^verbatim>\<open>api/index.py\<close>: a request with no input is answered with an error message.\<close>

lemma no_input_reported_api:
  assumes "truthy_file (uploaded_file req) = None" and "truthy_str (url_input req) = None"
    and "truthy_str (text_input req) = None"
  shows "process_api env req st =
           (Response [] (ascii ''No input provided'') (summaries_history st), st)"
  using assms by (simp add: process_api_def Let_def dispatch_api_def summarize_api_def ascii_Nil_iff)

text \<open>
  \<^verbatim>\<open>api/index.py\<close>: once the upload is staged, the staged file is gone after the
  request, whatever the extractors and the read of the file do.
\<close>

lemma file_branch_api_removed:
  assumes "named_temporary_file env (splitext_lower env (filename f)) = Inr q"
    and "save env q (content f) = Saved"
  shows "q \<notin> files (snd (file_branch_api env f st))"
  using assms
  by (simp add: file_branch_api_def Let_def save_upload_def save_file_def log_calls_def
      os_remove_def split: prod.splits)

lemma summarize_api_files: "files (snd (summarize_api env ol wl t e st)) = files st"
  by (simp add: summarize_api_def Let_def log_calls_def split: sum.splits)

lemma staged_file_removed_api:
  assumes "truthy_file (uploaded_file req) = Some f"
    and "named_temporary_file env (splitext_lower env (filename f)) = Inr q"
    and "save env q (content f) = Saved"
  shows "q \<notin> files (snd (process_api env req st))"
proof -
  have d: "dispatch_api env req st = file_branch_api env f st"
    using assms(1) by (simp add: dispatch_api_def)
  obtain r st1 where x: "file_branch_api env f st = (r, st1)" by (cases "file_branch_api env f st")
  then have n: "q \<notin> files st1"
    using file_branch_api_removed [OF assms(2,3), of st] by simp
  show ?thesis
  proof (cases r)
    case (Inl e)
    then show ?thesis using d x n by (simp add: process_api_def Let_def)
  next
    case (Inr p)
    obtain t e where p: "p = (t, e)" by (cases p)
    show ?thesis using d x n Inr p by (simp add: process_api_def Let_def summarize_api_files)
  qed
qed

section \<open>Unsupported file types\<close>

text \<open>
  \<^verbatim>\<open>app.py\<close> looks at the extension before it stages anything: an unsupported
  extension gives the message and leaves the state untouched. \<^verbatim>\<open>api/index.py\<close> stages
  first: when that succeeds it gives its message, having only saved and removed the file.
\<close>

lemma unsupported_extension_app:
  assumes "truthy_file (uploaded_file req) = Some f"
    and "splitext_lower env (filename f) \<notin> valid_extensions"
  shows "process_app env req st =
           (Response [] (warn @ ascii '' Unsupported file type: '' @ splitext_lower env (filename f))
              (summaries_history st), st)"
proof -
  have "dispatch_app env req l st =
      (Inr ([], warn @ ascii '' Unsupported file type: '' @ splitext_lower env (filename f)), st)" for l
    using assms by (simp add: dispatch_app_def file_branch_app_def Let_def)
  then show ?thesis
    by (simp add: process_app_def Let_def summarize_app_def strip_def)
qed

lemma unsupported_extension_api_staged:
  assumes "truthy_file (uploaded_file req) = Some f"
    and "splitext_lower env (filename f) \<notin> valid_extensions"
    and "named_temporary_file env (splitext_lower env (filename f)) = Inr q"
    and "save env q (content f) = Saved"
  shows "process_api env req st =
           (Response [] (ascii ''Unsupported file type'') (summaries_history st),
            staged_and_removed q [] st)"
proof -
  have "dispatch_api env req st =
      (Inr ([], ascii ''Unsupported file type''), staged_and_removed q [] st)"
    using file_routing_api [OF assms(1) refl assms(3,4), of st] assms(2) by simp
  then show ?thesis
    by (simp add: process_api_def Let_def summarize_api_def ascii_Nil_iff
        staged_and_removed_def)
qed

lemma long_name_ext:
  "splitext_lower world (ascii long_name) = 46 # replicate 300 120"
proof -
  have n: "ascii long_name = ascii ''report'' @ 46 # replicate 300 120"
    by (simp add: long_name_def ascii_def)
  have t: "takeWhile (\<lambda>c. c \<noteq> 46) (replicate 300 120 @ 46 # rev (ascii ''report'')) =
      replicate 300 (120 :: nat)"
    by (subst takeWhile_append2) auto
  have m: "map (\<lambda>c. if 65 \<le> c \<and> c \<le> 90 then c + 32 else c) (replicate 300 (120 :: nat)) =
      replicate 300 120"
    by simp
  show ?thesis
    unfolding n by (simp add: world_def ext_of_def t m)
qed

lemma long_ext_unsupported: "46 # replicate 300 120 \<notin> valid_extensions"
proof -
  have "length (46 # replicate 300 (120 :: nat)) = 301" by simp
  moreover have "\<forall>x \<in> valid_extensions. length x \<le> 5"
    by (simp add: valid_extensions_def ascii_def)
  ultimately show ?thesis by fastforce
qed

lemma long_name_file:
  "truthy_file (uploaded_file (upload long_name b)) =
     Some \<lparr>filename = ascii long_name, content = b\<rparr>"
  by (simp add: upload_def truthy_file_def ascii_def long_name_def)

text \<open>
  Claim C8, at the input where \<^verbatim>\<open>api/index.py\<close> departs from it. An upload whose name
  ends in a dot and three hundred letters: the extension is not a supported one, and
  \<^verbatim>\<open>app.py\<close> answers with the unsupported-type message and an untouched state. In
  \<^verbatim>\<open>api/index.py\<close> the temporary file is created before the extension is looked at,
  with the extension as its suffix; that call raises, the exception leaves the handler, and
  the caller gets a server error instead of the unsupported-type message.
\<close>

theorem unsupported_long_extension_faults_api:
  "splitext_lower world (ascii long_name) \<notin> valid_extensions \<and>
   process_api world (upload long_name [80, 75, 3, 4]) st0 =
     (Fault (ascii ''File name too long''), st0) \<and>
   process_app world (upload long_name [80, 75, 3, 4]) st0 =
     (Response [] (warn @ ascii '' Unsupported file type: '' @ splitext_lower world (ascii long_name))
        [], st0)"
proof -
  have u: "splitext_lower world (ascii long_name) \<notin> valid_extensions"
    unfolding long_name_ext by (rule long_ext_unsupported)
  have t: "named_temporary_file world (46 # replicate 300 120) = Inl (ascii ''File name too long'')"
    by (simp add: world_def)
  have api: "process_api world (upload long_name [80, 75, 3, 4]) st0 =
      (Fault (ascii ''File name too long''), st0)"
    by (simp add: process_api_def Let_def dispatch_api_def long_name_file file_branch_api_def
        long_name_ext t)
  have app: "process_app world (upload long_name [80, 75, 3, 4]) st0 =
      (Response [] (warn @ ascii '' Unsupported file type: '' @ splitext_lower world (ascii long_name))
         [], st0)"
    using unsupported_extension_app [OF long_name_file, of world "[80, 75, 3, 4]" st0] u
    by (simp add: st0_def)
  show ?thesis using u api app by simp
qed

section \<open>The history changes only when the summarization answers\<close>









end
